theory Spec2Isabelle
  imports Complex_Main "HOL-Library.Multiset"
begin

section \<open>Strings\<close>

text \<open>
  Strings of the TypeScript source are modelled as \<^typ>\<open>string\<close>. A double quote inside
  a template literal is the character \<open>0x22\<close>, a line feed is \<open>0x0A\<close>.
\<close>

definition dq :: string where
  "dq = [CHR 0x22]"

definition nl :: string where
  "nl = [CHR 0x0A]"

definition quoted :: "string \<Rightarrow> string" where
  "quoted s = dq @ s @ dq"

text \<open>\<open>Array.prototype.join\<close> on an array of strings.\<close>

fun join :: "string \<Rightarrow> string list \<Rightarrow> string" where
  "join sep [] = []"
| "join sep [x] = x"
| "join sep (x # y # ys) = x @ sep @ join sep (y # ys)"

text \<open>
  \<open>String.prototype.toLowerCase\<close>, on the ASCII letters. (JavaScript also lowers
  the letters beyond ASCII; the model leaves every other character as it is.)
\<close>

definition lower_char :: "char \<Rightarrow> char" where
  "lower_char c =
     (case map_of (zip ''ABCDEFGHIJKLMNOPQRSTUVWXYZ'' ''abcdefghijklmnopqrstuvwxyz'') c of
        None \<Rightarrow> c
      | Some l \<Rightarrow> l)"

definition toLowerCase :: "string \<Rightarrow> string" where
  "toLowerCase s = map lower_char s"

text \<open>
  \<open>s.replace(c, '')\<close> with a string pattern of one character: only the first
  occurrence is removed, wherever it stands.
\<close>

fun replace_first :: "char \<Rightarrow> string \<Rightarrow> string" where
  "replace_first c [] = []"
| "replace_first c (x # xs) = (if x = c then xs else x # replace_first c xs)"

text \<open>Decimal rendering of a number inside a template literal.\<close>

definition digit_char :: "nat \<Rightarrow> char" where
  "digit_char d = (''0123456789'' ! d)"

fun show_nat :: "nat \<Rightarrow> string" where
  "show_nat n = (if n < 10 then [digit_char n] else show_nat (n div 10) @ [digit_char (n mod 10)])"

section \<open>Data model\<close>

text \<open>
  The entities are those of the collaborator (discord.js); only the fields that
  \<open>index.ts\<close> reads are kept. \<open>channel instanceof TextChannel\<close> and
  \<open>c.type === ChannelType.GuildText\<close> both hold exactly of the channels of kind
  \<open>GuildText\<close>.
\<close>

datatype channel_kind = GuildText | OtherKind

record guild =
  guild_id :: string
  guild_name :: string
  memberCount :: nat

record channel =
  channel_id :: string
  channel_name :: string
  channel_kind :: channel_kind
  channel_guild :: guild

record role =
  role_id :: string
  role_name :: string
  hexColor :: string
  position :: int
  role_permissions :: "string list"
  role_mentionable :: bool

record member =
  member_id :: string
  user_tag :: string
  nickname :: "string option"
  username :: string
  member_roles :: "string list"

record message =
  message_id :: string
  author_tag :: string
  content :: string
  createdAt :: int

definition is_TextChannel :: "channel \<Rightarrow> bool" where
  "is_TextChannel c = (channel_kind c = GuildText)"

text \<open>The options object of \<open>guild.roles.create\<close> and of \<open>role.edit\<close>.\<close>

record role_options =
  opt_name :: "string option"
  opt_color :: "string option"
  opt_permissions :: "int list option"
  opt_mentionable :: "bool option"

text \<open>
  Every call \<open>index.ts\<close> makes on the collaborator is logged, in the order it is issued.
  The last seven are the remote mutations.
\<close>

datatype call =
    GuildsFetch string
  | ChannelsFetch string
  | RolesFetch string
  | MemberFetch string string
  | MembersFetch string
  | MessagesFetch string real
  | MessageSend string string
  | ChannelsCreate string string
  | RolesCreate string role_options
  | RoleEdit string string role_options
  | RoleDelete string string
  | MemberRolesAdd string string string
  | MemberRolesRemove string string string

fun is_mutation :: "call \<Rightarrow> bool" where
  "is_mutation (MessageSend _ _) = True"
| "is_mutation (ChannelsCreate _ _) = True"
| "is_mutation (RolesCreate _ _) = True"
| "is_mutation (RoleEdit _ _ _) = True"
| "is_mutation (RoleDelete _ _) = True"
| "is_mutation (MemberRolesAdd _ _ _) = True"
| "is_mutation (MemberRolesRemove _ _ _) = True"
| "is_mutation _ = False"

text \<open>
  The state of the collaborator as \<open>index.ts\<close> sees it. The caches are insertion-ordered
  collections, kept per guild id (\<open>guild.channels.cache\<close> is \<open>channels_cache w (guild_id guild)\<close>),
  so that every reference to a guild reads the same cache. The \<open>_result\<close> fields are the
  answers of the remote platform: \<open>Inl m\<close> is a rejected promise with message \<open>m\<close>,
  \<open>Inr v\<close> a promise resolved with \<open>v\<close>. For the two refreshes (\<open>guild.roles.fetch()\<close>,
  \<open>guild.members.fetch()\<close>) the resolved value is the content of the cache once the refresh
  is done; every other call leaves the caches as they are (when the collaborator stores what
  it has fetched or created is its own business). \<open>Flags\<close> is the table \<open>PermissionsBitField.Flags\<close>: \<open>Flags w p = Some b\<close> when
  \<open>p in PermissionsBitField.Flags\<close>, and \<open>Flags_keys\<close> is \<open>Object.keys\<close> of it.
\<close>

record world =
  guilds_cache :: "guild list"
  channels_cache :: "string \<Rightarrow> channel list"
  roles_cache :: "string \<Rightarrow> role list"
  members_cache :: "string \<Rightarrow> member list"
  calls :: "call list"
  guilds_fetch_result :: "string \<Rightarrow> string + guild option"
  channels_fetch_result :: "string \<Rightarrow> string + channel option"
  roles_fetch_result :: "string \<Rightarrow> string + role list"
  member_fetch_result :: "string \<Rightarrow> string \<Rightarrow> string + member option"
  members_fetch_result :: "string \<Rightarrow> string + member list"
  messages_fetch_result :: "string \<Rightarrow> real \<Rightarrow> string + message list"
  send_result :: "string \<Rightarrow> string \<Rightarrow> string + string"
  channels_create_result :: "string \<Rightarrow> string \<Rightarrow> string + channel"
  roles_create_result :: "string \<Rightarrow> role_options \<Rightarrow> string + role"
  role_edit_result :: "string \<Rightarrow> string \<Rightarrow> role_options \<Rightarrow> string + role"
  role_delete_result :: "string \<Rightarrow> string \<Rightarrow> string + unit"
  roles_add_result :: "string \<Rightarrow> string \<Rightarrow> string \<Rightarrow> string + unit"
  roles_remove_result :: "string \<Rightarrow> string \<Rightarrow> string \<Rightarrow> string + unit"
  Flags_keys :: "string list"
  Flags :: "string \<Rightarrow> int option"

definition log_call :: "call \<Rightarrow> world \<Rightarrow> world" where
  "log_call c w = w\<lparr>calls := calls w @ [c]\<rparr>"

definition mutation_calls :: "world \<Rightarrow> call list" where
  "mutation_calls w = filter is_mutation (calls w)"

section \<open>Errors and actions\<close>

text \<open>
  A thrown value is either a \<open>ZodError\<close> with its issues (path and message) or an
  \<open>Error\<close> with its message. An async function is a function of the world that returns
  its outcome (\<open>Inl\<close>: thrown) and the world it leaves behind.
\<close>

record issue =
  issue_path :: "string list"
  issue_message :: string

datatype err = ZodError "issue list" | Error string

type_synonym 'a action = "world \<Rightarrow> (err + 'a) \<times> world"

definition returnA :: "'a \<Rightarrow> 'a action" where
  "returnA x w = (Inr x, w)"

definition throwA :: "string \<Rightarrow> 'a action" where
  "throwA m w = (Inl (Error m), w)"

definition bindA :: "'a action \<Rightarrow> ('a \<Rightarrow> 'b action) \<Rightarrow> 'b action" where
  "bindA m f w = (case m w of (Inl e, w1) \<Rightarrow> (Inl e, w1) | (Inr x, w1) \<Rightarrow> f x w1)"

text \<open>Reading the collaborator's state without a call.\<close>

definition readA :: "(world \<Rightarrow> 'a) \<Rightarrow> 'a action" where
  "readA f w = (Inr (f w), w)"

text \<open>
  An awaited call on the collaborator: the call is logged, and a rejection is thrown on
  as an \<open>Error\<close> with the collaborator's message.
\<close>

definition remote :: "call \<Rightarrow> (world \<Rightarrow> string + 'a) \<Rightarrow> 'a action" where
  "remote c r w =
     (case r w of
        Inl m \<Rightarrow> (Inl (Error m), log_call c w)
      | Inr v \<Rightarrow> (Inr v, log_call c w))"

section \<open>Resolvers\<close>

subsection \<open>findGuild\<close>

definition msg_multiple_servers :: "guild list \<Rightarrow> string" where
  "msg_multiple_servers gs =
     ''Bot is in multiple servers. Please specify server name or ID. Available servers: ''
       @ join '', '' (map (\<lambda>g. quoted (guild_name g)) gs)"

definition msg_server_not_found_available :: "string \<Rightarrow> guild list \<Rightarrow> string" where
  "msg_server_not_found_available gi gs =
     ''Server '' @ quoted gi @ '' not found. Available servers: ''
       @ join '', '' (map (\<lambda>g. quoted (guild_name g)) gs)"

definition msg_multiple_servers_named :: "string \<Rightarrow> guild list \<Rightarrow> string" where
  "msg_multiple_servers_named gi gs =
     ''Multiple servers found with name '' @ quoted gi @ '': ''
       @ join '', '' (map (\<lambda>g. guild_name g @ '' (ID: '' @ guild_id g @ '')'') gs)
       @ ''. Please specify the server ID.''"

definition msg_server_not_found :: "string \<Rightarrow> string" where
  "msg_server_not_found gi = ''Server '' @ quoted gi @ '' not found''"

text \<open>The branch \<open>if (!guildIdentifier)\<close>: it reads the cache only.\<close>

definition findGuild_omitted :: "guild action" where
  "findGuild_omitted w =
     (case guilds_cache w of
        [g] \<Rightarrow> (Inr g, w)
      | gs \<Rightarrow> (Inl (Error (msg_multiple_servers gs)), w))"

text \<open>The \<open>catch\<close> block: the search by name in \<open>client.guilds.cache\<close>.\<close>

definition findGuild_by_name :: "string \<Rightarrow> guild action" where
  "findGuild_by_name gi w =
     (let guilds = filter (\<lambda>g. toLowerCase (guild_name g) = toLowerCase gi) (guilds_cache w) in
      if length guilds = 0 then (Inl (Error (msg_server_not_found_available gi (guilds_cache w))), w)
      else if length guilds > 1 then (Inl (Error (msg_multiple_servers_named gi guilds)), w)
      else (Inr (hd guilds), w))"

text \<open>
  \<open>!guildIdentifier\<close> holds of \<open>undefined\<close> and of the empty string.
\<close>

definition findGuild :: "string option \<Rightarrow> guild action" where
  "findGuild guildIdentifier w =
     (case guildIdentifier of
        None \<Rightarrow> findGuild_omitted w
      | Some gi \<Rightarrow>
          if gi = [] then findGuild_omitted w
          else
            (let w1 = log_call (GuildsFetch gi) w in
             case guilds_fetch_result w gi of
               Inr (Some g) \<Rightarrow> (Inr g, w1)
             | Inr None \<Rightarrow> (Inl (Error (msg_server_not_found gi)), w1)
             | Inl _ \<Rightarrow> findGuild_by_name gi w1))"

subsection \<open>findChannel\<close>

definition msg_channel_not_found :: "string \<Rightarrow> guild \<Rightarrow> channel list \<Rightarrow> string" where
  "msg_channel_not_found ci g cs =
     ''Channel '' @ quoted ci @ '' not found in server '' @ quoted (guild_name g)
       @ ''. Available channels: ''
       @ join '', '' (map (\<lambda>c. quoted (''#'' @ channel_name c)) cs)"

definition msg_multiple_channels :: "string \<Rightarrow> guild \<Rightarrow> channel list \<Rightarrow> string" where
  "msg_multiple_channels ci g cs =
     ''Multiple channels found with name '' @ quoted ci @ '' in server '' @ quoted (guild_name g)
       @ '': '' @ join '', '' (map (\<lambda>c. ''#'' @ channel_name c @ '' ('' @ channel_id c @ '')'') cs)
       @ ''. Please specify the channel ID.''"

definition msg_channel_not_text :: "string \<Rightarrow> guild \<Rightarrow> string" where
  "msg_channel_not_text ci g =
     ''Channel '' @ quoted ci @ '' is not a text channel or not found in server ''
       @ quoted (guild_name g)"

text \<open>The predicate of the filter in the \<open>catch\<close> block of \<open>findChannel\<close>.\<close>

definition channel_name_matches :: "string \<Rightarrow> channel \<Rightarrow> bool" where
  "channel_name_matches ci c =
     (is_TextChannel c \<and>
      (toLowerCase (channel_name c) = toLowerCase ci \<or>
       toLowerCase (channel_name c) = replace_first (CHR ''#'') (toLowerCase ci)))"

definition findChannel_by_name :: "string \<Rightarrow> guild \<Rightarrow> channel action" where
  "findChannel_by_name ci g w =
     (let channels = filter (channel_name_matches ci) (channels_cache w (guild_id g)) in
      if length channels = 0 then
        (Inl (Error (msg_channel_not_found ci g
                (filter is_TextChannel (channels_cache w (guild_id g))))), w)
      else if length channels > 1 then (Inl (Error (msg_multiple_channels ci g channels)), w)
      else (Inr (hd channels), w))"

text \<open>
  \<open>client.channels.fetch\<close> resolves with a channel or with \<open>null\<close>, or rejects. A resolved
  channel that fails the test leaves the \<open>try\<close> block without a throw, so the \<open>catch\<close>
  block is skipped and the last \<open>throw\<close> of the function is reached.
\<close>

definition findChannel :: "string \<Rightarrow> string option \<Rightarrow> channel action" where
  "findChannel ci gi w =
     (case findGuild gi w of
        (Inl e, w1) \<Rightarrow> (Inl e, w1)
      | (Inr g, w1) \<Rightarrow>
          (let w2 = log_call (ChannelsFetch ci) w1 in
           case channels_fetch_result w1 ci of
             Inr (Some c) \<Rightarrow>
               if is_TextChannel c \<and> guild_id (channel_guild c) = guild_id g then (Inr c, w2)
               else (Inl (Error (msg_channel_not_text ci g)), w2)
           | Inr None \<Rightarrow> (Inl (Error (msg_channel_not_text ci g)), w2)
           | Inl _ \<Rightarrow> findChannel_by_name ci g w2))"

subsection \<open>findRole\<close>

definition msg_role_not_found :: "string \<Rightarrow> guild \<Rightarrow> role list \<Rightarrow> string" where
  "msg_role_not_found ri g rs =
     ''Role '' @ quoted ri @ '' not found in server '' @ quoted (guild_name g)
       @ ''. Available roles: '' @ join '', '' (map (\<lambda>r. quoted (role_name r)) rs)"

text \<open>\<open>cache.get(id)\<close> and \<open>cache.find(r => r.name.toLowerCase() === id.toLowerCase())\<close>.\<close>

definition role_by_id :: "string \<Rightarrow> role list \<Rightarrow> role option" where
  "role_by_id ri rs = find (\<lambda>r. role_id r = ri) rs"

definition role_by_name :: "string \<Rightarrow> role list \<Rightarrow> role option" where
  "role_by_name ri rs = find (\<lambda>r. toLowerCase (role_name r) = toLowerCase ri) rs"

text \<open>Both lookups, one after the other: \<open>get(id) ?? find(...)\<close>.\<close>

definition role_lookup :: "string \<Rightarrow> role list \<Rightarrow> role option" where
  "role_lookup ri rs = (case role_by_id ri rs of Some r \<Rightarrow> Some r | None \<Rightarrow> role_by_name ri rs)"

text \<open>\<open>guild.roles.fetch()\<close>: one call; when it resolves the cache of the guild is replaced.\<close>

definition roles_fetch :: "string \<Rightarrow> unit action" where
  "roles_fetch gid w =
     (let w1 = log_call (RolesFetch gid) w in
      case roles_fetch_result w gid of
        Inl m \<Rightarrow> (Inl (Error m), w1)
      | Inr rs \<Rightarrow> (Inr (), w1\<lparr>roles_cache := (roles_cache w1)(gid := rs)\<rparr>))"

definition findRole :: "string \<Rightarrow> string option \<Rightarrow> role action" where
  "findRole ri gi w =
     (case findGuild gi w of
        (Inl e, w1) \<Rightarrow> (Inl e, w1)
      | (Inr g, w1) \<Rightarrow>
          (case role_by_id ri (roles_cache w1 (guild_id g)) of
             Some r \<Rightarrow> (Inr r, w1)
           | None \<Rightarrow>
               (case role_by_name ri (roles_cache w1 (guild_id g)) of
                  Some r \<Rightarrow> (Inr r, w1)
                | None \<Rightarrow>
                    (case roles_fetch (guild_id g) w1 of
                       (Inr _, w2) \<Rightarrow>
                         (case role_lookup ri (roles_cache w2 (guild_id g)) of
                            Some r \<Rightarrow> (Inr r, w2)
                          | None \<Rightarrow>
                              (Inl (Error (msg_role_not_found ri g (roles_cache w2 (guild_id g)))), w2))
                     | (Inl _, w2) \<Rightarrow>
                         (Inl (Error (msg_role_not_found ri g (roles_cache w2 (guild_id g)))), w2)))))"

subsection \<open>findMember\<close>

definition msg_user_not_found :: "string \<Rightarrow> guild \<Rightarrow> string" where
  "msg_user_not_found ui g =
     ''User '' @ quoted ui @ '' not found in server '' @ quoted (guild_name g) @ ''.''"

text \<open>\<open>userIdentifier.replace(/[<@!>]/g, '')\<close>.\<close>

definition clean_mention :: "string \<Rightarrow> string" where
  "clean_mention ui = filter (\<lambda>c. c \<notin> set ''<@!>'') ui"

definition member_by_tag :: "string \<Rightarrow> member list \<Rightarrow> member option" where
  "member_by_tag l ms = find (\<lambda>m. toLowerCase (user_tag m) = l) ms"

definition member_by_name :: "string \<Rightarrow> member list \<Rightarrow> member option" where
  "member_by_name l ms =
     find (\<lambda>m. (case nickname m of None \<Rightarrow> False | Some n \<Rightarrow> toLowerCase n = l)
               \<or> toLowerCase (username m) = l) ms"

definition member_lookup :: "string \<Rightarrow> member list \<Rightarrow> member option" where
  "member_lookup ui ms =
     (case find (\<lambda>m. member_id m = clean_mention ui) ms of
        Some m \<Rightarrow> Some m
      | None \<Rightarrow>
          (case member_by_tag (toLowerCase ui) ms of
             Some m \<Rightarrow> Some m
           | None \<Rightarrow> member_by_name (toLowerCase ui) ms))"

text \<open>\<open>guild.members.fetch()\<close>: one call; when it resolves the cache of the guild is replaced.\<close>

definition members_fetch :: "string \<Rightarrow> unit action" where
  "members_fetch gid w =
     (let w1 = log_call (MembersFetch gid) w in
      case members_fetch_result w gid of
        Inl m \<Rightarrow> (Inl (Error m), w1)
      | Inr ms \<Rightarrow> (Inr (), w1\<lparr>members_cache := (members_cache w1)(gid := ms)\<rparr>))"

text \<open>The part of \<open>findMember\<close> after the fetch by ID has failed or resolved with nothing.\<close>

definition findMember_cached :: "string \<Rightarrow> guild \<Rightarrow> member action" where
  "findMember_cached ui g w =
     (case member_by_tag (toLowerCase ui) (members_cache w (guild_id g)) of
        Some m \<Rightarrow> (Inr m, w)
      | None \<Rightarrow>
          (case member_by_name (toLowerCase ui) (members_cache w (guild_id g)) of
             Some m \<Rightarrow> (Inr m, w)
           | None \<Rightarrow>
               (case members_fetch (guild_id g) w of
                  (Inr _, w2) \<Rightarrow>
                    (case member_lookup ui (members_cache w2 (guild_id g)) of
                       Some m \<Rightarrow> (Inr m, w2)
                     | None \<Rightarrow> (Inl (Error (msg_user_not_found ui g)), w2))
                | (Inl _, w2) \<Rightarrow> (Inl (Error (msg_user_not_found ui g)), w2))))"

definition findMember :: "string \<Rightarrow> string option \<Rightarrow> member action" where
  "findMember ui gi w =
     (case findGuild gi w of
        (Inl e, w1) \<Rightarrow> (Inl e, w1)
      | (Inr g, w1) \<Rightarrow>
          (let w2 = log_call (MemberFetch (guild_id g) (clean_mention ui)) w1 in
           case member_fetch_result w1 (guild_id g) (clean_mention ui) of
             Inr (Some m) \<Rightarrow> (Inr m, w2)
           | _ \<Rightarrow> findMember_cached ui g w2))"

section \<open>Validation schemas\<close>

text \<open>
  The arguments of a tool call are an untyped JSON value, or absent (\<open>None\<close>, the
  \<open>undefined\<close> of the source). The key of an object that is not there reads as \<open>None\<close>.
\<close>

datatype json =
    JNull
  | JBool bool
  | JNum real
  | JStr string
  | JArr "json list"
  | JObj "(string \<times> json) list"

type_synonym 'a parsed = "issue list + 'a"

text \<open>
  The part of the zod library that the schemas of \<open>index.ts\<close> use, with zod's default
  messages: a value of the wrong type is \<open>Required\<close> when it is \<open>undefined\<close> and
  \<open>Expected t, received u\<close> otherwise; an object schema parses every key of its shape and
  gathers the issues of all of them, in the order of the shape.
\<close>

fun received :: "json option \<Rightarrow> string" where
  "received None = ''undefined''"
| "received (Some JNull) = ''null''"
| "received (Some (JBool _)) = ''boolean''"
| "received (Some (JNum _)) = ''number''"
| "received (Some (JStr _)) = ''string''"
| "received (Some (JArr _)) = ''array''"
| "received (Some (JObj _)) = ''object''"

definition invalid_type :: "string list \<Rightarrow> string \<Rightarrow> json option \<Rightarrow> issue" where
  "invalid_type p expected v =
     \<lparr>issue_path = p,
      issue_message =
        (if v = None then ''Required''
         else ''Expected '' @ expected @ '', received '' @ received v)\<rparr>"

definition z_string :: "string list \<Rightarrow> json option \<Rightarrow> string parsed" where
  "z_string p v = (case v of Some (JStr s) \<Rightarrow> Inr s | _ \<Rightarrow> Inl [invalid_type p ''string'' v])"

definition z_boolean :: "string list \<Rightarrow> json option \<Rightarrow> bool parsed" where
  "z_boolean p v = (case v of Some (JBool b) \<Rightarrow> Inr b | _ \<Rightarrow> Inl [invalid_type p ''boolean'' v])"

text \<open>\<open>z.number().min(lo).max(hi)\<close>.\<close>

definition z_number_min_max :: "nat \<Rightarrow> nat \<Rightarrow> string list \<Rightarrow> json option \<Rightarrow> real parsed" where
  "z_number_min_max lo hi p v =
     (case v of
        Some (JNum x) \<Rightarrow>
          (let issues =
             (if x < real lo then
                [\<lparr>issue_path = p,
                  issue_message = ''Number must be greater than or equal to '' @ show_nat lo\<rparr>]
              else [])
             @ (if real hi < x then
                  [\<lparr>issue_path = p,
                    issue_message = ''Number must be less than or equal to '' @ show_nat hi\<rparr>]
                else [])
           in if issues = [] then Inr x else Inl issues)
      | _ \<Rightarrow> Inl [invalid_type p ''number'' v])"

text \<open>\<open>.optional()\<close> and \<open>.default(d)\<close>: both act on \<open>undefined\<close> only.\<close>

definition z_optional ::
  "(string list \<Rightarrow> json option \<Rightarrow> 'a parsed) \<Rightarrow> string list \<Rightarrow> json option \<Rightarrow> 'a option parsed" where
  "z_optional f p v =
     (case v of
        None \<Rightarrow> Inr None
      | Some _ \<Rightarrow> (case f p v of Inl is \<Rightarrow> Inl is | Inr a \<Rightarrow> Inr (Some a)))"

definition z_default ::
  "(string list \<Rightarrow> json option \<Rightarrow> 'a parsed) \<Rightarrow> json \<Rightarrow> string list \<Rightarrow> json option \<Rightarrow> 'a parsed" where
  "z_default f d p v = (case v of None \<Rightarrow> f p (Some d) | Some _ \<Rightarrow> f p v)"

text \<open>\<open>z.array(z.string())\<close>: the path of an element ends with its index.\<close>

fun z_strings_from :: "nat \<Rightarrow> string list \<Rightarrow> json list \<Rightarrow> string list parsed" where
  "z_strings_from i p [] = Inr []"
| "z_strings_from i p (x # xs) =
     (case (z_string (p @ [show_nat i]) (Some x), z_strings_from (Suc i) p xs) of
        (Inr s, Inr ss) \<Rightarrow> Inr (s # ss)
      | (Inr s, Inl js) \<Rightarrow> Inl js
      | (Inl is, Inr ss) \<Rightarrow> Inl is
      | (Inl is, Inl js) \<Rightarrow> Inl (is @ js))"

definition z_array_string :: "string list \<Rightarrow> json option \<Rightarrow> string list parsed" where
  "z_array_string p v =
     (case v of
        Some (JArr xs) \<Rightarrow> z_strings_from 0 p xs
      | _ \<Rightarrow> Inl [invalid_type p ''array'' v])"

text \<open>\<open>z.object\<close>: the value must be an object; then every key of the shape is parsed.\<close>

definition z_object :: "json option \<Rightarrow> (string \<Rightarrow> json option) parsed" where
  "z_object v = (case v of Some (JObj kvs) \<Rightarrow> Inr (map_of kvs) | _ \<Rightarrow> Inl [invalid_type [] ''object'' v])"

definition field ::
  "(string list \<Rightarrow> json option \<Rightarrow> 'a parsed) \<Rightarrow> string \<Rightarrow> (string \<Rightarrow> json option) \<Rightarrow> 'a parsed" where
  "field f k obj = f [k] (obj k)"

text \<open>One more key of a shape: the issues of the keys before it and its own are both kept.\<close>

definition zap :: "('a \<Rightarrow> 'b) parsed \<Rightarrow> 'a parsed \<Rightarrow> 'b parsed" where
  "zap pf pa =
     (case (pf, pa) of
        (Inr f, Inr a) \<Rightarrow> Inr (f a)
      | (Inr f, Inl js) \<Rightarrow> Inl js
      | (Inl is, Inr a) \<Rightarrow> Inl is
      | (Inl is, Inl js) \<Rightarrow> Inl (is @ js))"

definition server_field :: "(string \<Rightarrow> json option) \<Rightarrow> string option parsed" where
  "server_field obj = field (z_optional z_string) ''server'' obj"

definition SendMessageSchema :: "json option \<Rightarrow> (string option \<times> string \<times> string) parsed" where
  "SendMessageSchema args =
     (case z_object args of
        Inl is \<Rightarrow> Inl is
      | Inr obj \<Rightarrow>
          zap (zap (zap (Inr (\<lambda>s c m. (s, c, m))) (server_field obj))
                 (field z_string ''channel'' obj))
            (field z_string ''message'' obj))"

definition ReadMessagesSchema :: "json option \<Rightarrow> (string option \<times> string \<times> real) parsed" where
  "ReadMessagesSchema args =
     (case z_object args of
        Inl is \<Rightarrow> Inl is
      | Inr obj \<Rightarrow>
          zap (zap (zap (Inr (\<lambda>s c l. (s, c, l))) (server_field obj))
                 (field z_string ''channel'' obj))
            (field (z_default (z_number_min_max 1 100) (JNum 50)) ''limit'' obj))"

definition ReadMultipleChannelsSchema ::
  "json option \<Rightarrow> (string option \<times> string list option \<times> real) parsed" where
  "ReadMultipleChannelsSchema args =
     (case z_object args of
        Inl is \<Rightarrow> Inl is
      | Inr obj \<Rightarrow>
          zap (zap (zap (Inr (\<lambda>s c l. (s, c, l))) (server_field obj))
                 (field (z_optional z_array_string) ''channels'' obj))
            (field (z_default (z_number_min_max 1 50) (JNum 10)) ''limitPerChannel'' obj))"

text \<open>\<open>ListChannelsSchema\<close>, \<open>ListRolesSchema\<close> and \<open>GetMemberCountSchema\<close> have the same shape.\<close>

definition ListChannelsSchema :: "json option \<Rightarrow> string option parsed" where
  "ListChannelsSchema args =
     (case z_object args of Inl is \<Rightarrow> Inl is | Inr obj \<Rightarrow> server_field obj)"

definition ListRolesSchema :: "json option \<Rightarrow> string option parsed" where
  "ListRolesSchema args =
     (case z_object args of Inl is \<Rightarrow> Inl is | Inr obj \<Rightarrow> server_field obj)"

definition GetMemberCountSchema :: "json option \<Rightarrow> string option parsed" where
  "GetMemberCountSchema args =
     (case z_object args of Inl is \<Rightarrow> Inl is | Inr obj \<Rightarrow> server_field obj)"

definition ListServersSchema :: "json option \<Rightarrow> unit parsed" where
  "ListServersSchema args = (case z_object args of Inl is \<Rightarrow> Inl is | Inr obj \<Rightarrow> Inr ())"

definition CreateChannelSchema :: "json option \<Rightarrow> (string option \<times> string) parsed" where
  "CreateChannelSchema args =
     (case z_object args of
        Inl is \<Rightarrow> Inl is
      | Inr obj \<Rightarrow>
          zap (zap (Inr (\<lambda>s c. (s, c))) (server_field obj)) (field z_string ''channelName'' obj))"

text \<open>\<open>AssignRoleSchema\<close> and \<open>RemoveRoleSchema\<close> have the same shape.\<close>

definition AssignRoleSchema :: "json option \<Rightarrow> (string option \<times> string \<times> string) parsed" where
  "AssignRoleSchema args =
     (case z_object args of
        Inl is \<Rightarrow> Inl is
      | Inr obj \<Rightarrow>
          zap (zap (zap (Inr (\<lambda>s u r. (s, u, r))) (server_field obj))
                 (field z_string ''user'' obj))
            (field z_string ''role'' obj))"

definition RemoveRoleSchema :: "json option \<Rightarrow> (string option \<times> string \<times> string) parsed" where
  "RemoveRoleSchema args =
     (case z_object args of
        Inl is \<Rightarrow> Inl is
      | Inr obj \<Rightarrow>
          zap (zap (zap (Inr (\<lambda>s u r. (s, u, r))) (server_field obj))
                 (field z_string ''user'' obj))
            (field z_string ''role'' obj))"

definition CreateRoleSchema ::
  "json option \<Rightarrow>
     (string option \<times> string \<times> string option \<times> string list option \<times> bool option) parsed" where
  "CreateRoleSchema args =
     (case z_object args of
        Inl is \<Rightarrow> Inl is
      | Inr obj \<Rightarrow>
          zap (zap (zap (zap (zap (Inr (\<lambda>s n c p m. (s, n, c, p, m))) (server_field obj))
                           (field z_string ''roleName'' obj))
                      (field (z_optional z_string) ''color'' obj))
                 (field (z_optional z_array_string) ''permissions'' obj))
            (field (z_default (z_optional z_boolean) (JBool False)) ''mentionable'' obj))"

text \<open>\<open>DeleteRoleSchema\<close> and \<open>GetRoleMemberCountSchema\<close> have the same shape.\<close>

definition DeleteRoleSchema :: "json option \<Rightarrow> (string option \<times> string) parsed" where
  "DeleteRoleSchema args =
     (case z_object args of
        Inl is \<Rightarrow> Inl is
      | Inr obj \<Rightarrow> zap (zap (Inr (\<lambda>s r. (s, r))) (server_field obj)) (field z_string ''role'' obj))"

definition GetRoleMemberCountSchema :: "json option \<Rightarrow> (string option \<times> string) parsed" where
  "GetRoleMemberCountSchema args =
     (case z_object args of
        Inl is \<Rightarrow> Inl is
      | Inr obj \<Rightarrow> zap (zap (Inr (\<lambda>s r. (s, r))) (server_field obj)) (field z_string ''role'' obj))"

definition UpdateRoleSchema ::
  "json option \<Rightarrow>
     (string option \<times> string \<times> string option \<times> string option \<times> string list option \<times> bool option) parsed" where
  "UpdateRoleSchema args =
     (case z_object args of
        Inl is \<Rightarrow> Inl is
      | Inr obj \<Rightarrow>
          zap (zap (zap (zap (zap (zap (Inr (\<lambda>s r n c p m. (s, r, n, c, p, m))) (server_field obj))
                                (field z_string ''role'' obj))
                           (field (z_optional z_string) ''newName'' obj))
                      (field (z_optional z_string) ''newColor'' obj))
                 (field (z_optional z_array_string) ''newPermissions'' obj))
            (field (z_optional z_boolean) ''newMentionable'' obj))"

text \<open>\<open>Schema.parse(args)\<close>: the value, or a thrown \<open>ZodError\<close>. The world is not touched.\<close>

definition parseA :: "'a parsed \<Rightarrow> 'a action" where
  "parseA r w = (case r of Inl is \<Rightarrow> (Inl (ZodError is), w) | Inr a \<Rightarrow> (Inr a, w))"

section \<open>Tool handlers\<close>

text \<open>
  The text of a response is a template string, for some tools followed by
  \<open>JSON.stringify(data, null, 2)\<close>; the data is kept as it is, not rendered.
\<close>

datatype entry =
    MessageEntry string string string string int
  | ErrorEntry string string string

datatype payload =
    Entries "entry list"
  | IdNames "(string \<times> string) list"
  | RoleList "role list"

datatype response = Text string | TextJson string payload

text \<open>
  An item of \<open>formattedMessages\<close>: channel, server, author, content, timestamp. The
  timestamp is \<open>msg.createdAt\<close> in milliseconds; the source writes it with
  \<open>toISOString\<close> and reads it back with \<open>new Date(...).getTime()\<close>.
\<close>

definition format_message :: "channel \<Rightarrow> message \<Rightarrow> entry" where
  "format_message c m =
     MessageEntry (''#'' @ channel_name c) (guild_name (channel_guild c))
       (author_tag m) (content m) (createdAt m)"

definition error_entry :: "channel \<Rightarrow> string \<Rightarrow> entry" where
  "error_entry c m =
     ErrorEntry (''#'' @ channel_name c) (guild_name (channel_guild c))
       (''Failed to fetch messages: '' @ m)"

fun timestamp :: "entry \<Rightarrow> int option" where
  "timestamp (MessageEntry _ _ _ _ t) = Some t"
| "timestamp (ErrorEntry _ _ _) = None"

text \<open>The comparator of \<open>allMessages.sort\<close>.\<close>

definition compare_entries :: "entry \<Rightarrow> entry \<Rightarrow> int" where
  "compare_entries a b =
     (case (timestamp b, timestamp a) of
        (Some tb, Some ta) \<Rightarrow> tb - ta
      | _ \<Rightarrow> 0)"

text \<open>
  \<open>Array.prototype.sort\<close> with a comparator. ECMAScript asks for a stable sort, which
  fixes the result whenever the comparator is consistent; for any other comparator the
  order is left to the engine. The model is the insertion sort: each element in turn moves
  left past the elements that compare greater than it (\<open>rs\<close> is the sorted prefix, last
  element first). On a comparator that is not consistent an engine may order some inputs
  differently from the model.
\<close>

fun sort_insert :: "('a \<Rightarrow> 'a \<Rightarrow> int) \<Rightarrow> 'a \<Rightarrow> 'a list \<Rightarrow> 'a list" where
  "sort_insert cmp x [] = [x]"
| "sort_insert cmp x (y # rs) = (if cmp y x > 0 then y # sort_insert cmp x rs else x # y # rs)"

definition js_sort :: "('a \<Rightarrow> 'a \<Rightarrow> int) \<Rightarrow> 'a list \<Rightarrow> 'a list" where
  "js_sort cmp xs = rev (foldl (\<lambda>rs x. sort_insert cmp x rs) [] xs)"

subsection \<open>send-message, read-messages\<close>

definition send_message :: "json option \<Rightarrow> response action" where
  "send_message args =
     bindA (parseA (SendMessageSchema args)) (\<lambda>(serverIdentifier, channelIdentifier, message).
     bindA (findChannel channelIdentifier serverIdentifier) (\<lambda>channel.
     bindA (remote (MessageSend (channel_id channel) message)
              (\<lambda>w. send_result w (channel_id channel) message)) (\<lambda>sent.
     returnA (Text (''Message sent successfully to #'' @ channel_name channel @ '' in ''
                @ guild_name (channel_guild channel) @ ''. Message ID: '' @ sent)))))"

definition read_messages :: "json option \<Rightarrow> response action" where
  "read_messages args =
     bindA (parseA (ReadMessagesSchema args)) (\<lambda>(serverIdentifier, channelIdentifier, limit).
     bindA (findChannel channelIdentifier serverIdentifier) (\<lambda>channel.
     bindA (remote (MessagesFetch (channel_id channel) limit)
              (\<lambda>w. messages_fetch_result w (channel_id channel) limit)) (\<lambda>messages.
     returnA (TextJson [] (Entries (map (format_message channel) messages))))))"

subsection \<open>list-channels, list-servers, create-channel\<close>

definition list_channels :: "json option \<Rightarrow> response action" where
  "list_channels args =
     bindA (parseA (ListChannelsSchema args)) (\<lambda>serverIdentifier.
     bindA (findGuild serverIdentifier) (\<lambda>guild.
     bindA (readA (\<lambda>w. filter is_TextChannel (channels_cache w (guild_id guild)))) (\<lambda>textChannels.
     returnA (TextJson (''Text channels in server '' @ quoted (guild_name guild) @ '':'' @ nl)
                (IdNames (map (\<lambda>c. (channel_id c, channel_name c)) textChannels))))))"

definition list_servers :: "json option \<Rightarrow> response action" where
  "list_servers args =
     bindA (parseA (ListServersSchema args)) (\<lambda>_.
     bindA (readA guilds_cache) (\<lambda>guilds.
     returnA (TextJson (''Bot is connected to the following servers:'' @ nl)
                (IdNames (map (\<lambda>g. (guild_id g, guild_name g)) guilds)))))"

definition msg_channel_exists :: "string \<Rightarrow> guild \<Rightarrow> string" where
  "msg_channel_exists channelName g =
     ''A text channel named '' @ quoted channelName @ '' already exists in server ''
       @ quoted (guild_name g) @ ''.''"

definition create_channel :: "json option \<Rightarrow> response action" where
  "create_channel args =
     bindA (parseA (CreateChannelSchema args)) (\<lambda>(serverIdentifier, channelName).
     bindA (findGuild serverIdentifier) (\<lambda>guild.
     bindA (readA (\<lambda>w. find (\<lambda>c. toLowerCase (channel_name c) = toLowerCase channelName
                                  \<and> channel_kind c = GuildText)
                          (channels_cache w (guild_id guild)))) (\<lambda>existingChannel.
     if existingChannel \<noteq> None then throwA (msg_channel_exists channelName guild)
     else
       bindA (remote (ChannelsCreate (guild_id guild) channelName)
                (\<lambda>w. channels_create_result w (guild_id guild) channelName)) (\<lambda>createdChannel.
       returnA (Text (''Successfully created text channel #'' @ channel_name createdChannel
                  @ '' (ID: '' @ channel_id createdChannel @ '') in server ''
                  @ quoted (guild_name guild) @ ''.''))))))"

subsection \<open>read-multiple-channels\<close>

text \<open>
  \<open>Promise.all(channelIdentifiers.map(id => findChannel(id, guild.id)))\<close>. Every
  \<open>findChannel\<close> runs to its end, and the promise rejects when one of them does. The model
  runs them one after the other and, when several fail, throws the error of the first in
  the list.
\<close>

fun resolve_all :: "string list \<Rightarrow> string \<Rightarrow> channel list action" where
  "resolve_all [] gid w = (Inr [], w)"
| "resolve_all (ci # ids) gid w =
     (case findChannel ci (Some gid) w of
        (r, w1) \<Rightarrow>
          (case resolve_all ids gid w1 of
             (rs, w2) \<Rightarrow>
               ((case r of
                   Inl e \<Rightarrow> Inl e
                 | Inr c \<Rightarrow> (case rs of Inl e \<Rightarrow> Inl e | Inr cs \<Rightarrow> Inr (c # cs))), w2)))"

text \<open>
  The items one channel adds to \<open>allMessages\<close>: the body of the \<open>for\<close> loop. A
  rejection of the collaborator is an \<open>Error\<close>, so the entry carries its message (the
  text \<open>Unknown error\<close> is for any other thrown value).
\<close>

definition channel_entries :: "world \<Rightarrow> real \<Rightarrow> channel \<Rightarrow> entry list" where
  "channel_entries w limitPerChannel c =
     (case messages_fetch_result w (channel_id c) limitPerChannel of
        Inr messages \<Rightarrow> map (format_message c) messages
      | Inl m \<Rightarrow> [error_entry c m])"

fun gather :: "real \<Rightarrow> channel list \<Rightarrow> world \<Rightarrow> entry list \<times> world" where
  "gather limitPerChannel [] w = ([], w)"
| "gather limitPerChannel (c # cs) w =
     (case gather limitPerChannel cs (log_call (MessagesFetch (channel_id c) limitPerChannel) w) of
        (rest, w2) \<Rightarrow> (channel_entries w limitPerChannel c @ rest, w2))"

text \<open>The choice of \<open>targetChannels\<close>: the channels named, or all text channels of the guild.\<close>

definition target_channels :: "guild \<Rightarrow> string list option \<Rightarrow> channel list action" where
  "target_channels guild channelIdentifiers =
     (case channelIdentifiers of
        None \<Rightarrow> readA (\<lambda>w. filter is_TextChannel (channels_cache w (guild_id guild)))
      | Some ids \<Rightarrow>
          if length ids > 0 then resolve_all ids (guild_id guild)
          else readA (\<lambda>w. filter is_TextChannel (channels_cache w (guild_id guild))))"

text \<open>The rest of the handler: the early return, the loop, the sort and the response.\<close>

definition read_targets :: "guild \<Rightarrow> real \<Rightarrow> channel list \<Rightarrow> response action" where
  "read_targets guild limitPerChannel targetChannels w =
     (if length targetChannels = 0 then
        (Inr (Text (''No text channels found or specified in server ''
                 @ quoted (guild_name guild) @ ''.'')), w)
      else
        (case gather limitPerChannel targetChannels w of
           (allMessages, w1) \<Rightarrow>
             (Inr (TextJson (''Fetched messages from '' @ show_nat (length targetChannels)
                      @ '' channel(s) in '' @ quoted (guild_name guild) @ '':'' @ nl)
                    (Entries (js_sort compare_entries allMessages))), w1)))"

definition read_multiple_channels :: "json option \<Rightarrow> response action" where
  "read_multiple_channels args =
     bindA (parseA (ReadMultipleChannelsSchema args))
       (\<lambda>(serverIdentifier, channelIdentifiers, limitPerChannel).
     bindA (findGuild serverIdentifier) (\<lambda>guild.
     bindA (target_channels guild channelIdentifiers) (\<lambda>targetChannels.
     read_targets guild limitPerChannel targetChannels)))"

subsection \<open>Role management\<close>

definition list_roles :: "json option \<Rightarrow> response action" where
  "list_roles args =
     bindA (parseA (ListRolesSchema args)) (\<lambda>serverIdentifier.
     bindA (findGuild serverIdentifier) (\<lambda>guild.
     bindA (roles_fetch (guild_id guild)) (\<lambda>_.
     bindA (readA (\<lambda>w. roles_cache w (guild_id guild))) (\<lambda>roles.
     returnA (TextJson (''Roles in server '' @ quoted (guild_name guild) @ '':'' @ nl)
                (RoleList roles))))))"

definition msg_already_has_role :: "member \<Rightarrow> role \<Rightarrow> string" where
  "msg_already_has_role m r =
     ''User '' @ user_tag m @ '' already has the role '' @ quoted (role_name r) @ ''.''"

definition msg_lacks_role :: "member \<Rightarrow> role \<Rightarrow> string" where
  "msg_lacks_role m r =
     ''User '' @ user_tag m @ '' does not have the role '' @ quoted (role_name r) @ ''.''"

text \<open>\<open>member.roles.cache.has(role.id)\<close>.\<close>

definition has_role :: "member \<Rightarrow> role \<Rightarrow> bool" where
  "has_role m r = (role_id r \<in> set (member_roles m))"

definition assign_role :: "json option \<Rightarrow> response action" where
  "assign_role args =
     bindA (parseA (AssignRoleSchema args)) (\<lambda>(serverIdentifier, userIdentifier, roleIdentifier).
     bindA (findGuild serverIdentifier) (\<lambda>guild.
     bindA (findMember userIdentifier (Some (guild_id guild))) (\<lambda>member.
     bindA (findRole roleIdentifier (Some (guild_id guild))) (\<lambda>role.
     if has_role member role then throwA (msg_already_has_role member role)
     else
       bindA (remote (MemberRolesAdd (guild_id guild) (member_id member) (role_id role))
                (\<lambda>w. roles_add_result w (guild_id guild) (member_id member) (role_id role))) (\<lambda>_.
       returnA (Text (''Successfully assigned role '' @ quoted (role_name role) @ '' to user ''
                  @ user_tag member @ '' in server '' @ quoted (guild_name guild) @ ''.'')))))))"

definition remove_role :: "json option \<Rightarrow> response action" where
  "remove_role args =
     bindA (parseA (RemoveRoleSchema args)) (\<lambda>(serverIdentifier, userIdentifier, roleIdentifier).
     bindA (findGuild serverIdentifier) (\<lambda>guild.
     bindA (findMember userIdentifier (Some (guild_id guild))) (\<lambda>member.
     bindA (findRole roleIdentifier (Some (guild_id guild))) (\<lambda>role.
     if \<not> has_role member role then throwA (msg_lacks_role member role)
     else
       bindA (remote (MemberRolesRemove (guild_id guild) (member_id member) (role_id role))
                (\<lambda>w. roles_remove_result w (guild_id guild) (member_id member) (role_id role))) (\<lambda>_.
       returnA (Text (''Successfully removed role '' @ quoted (role_name role) @ '' from user ''
                  @ user_tag member @ '' in server '' @ quoted (guild_name guild) @ ''.'')))))))"

definition msg_role_exists :: "string \<Rightarrow> guild \<Rightarrow> string" where
  "msg_role_exists roleName g =
     ''A role named '' @ quoted roleName @ '' already exists in server ''
       @ quoted (guild_name g) @ ''.''"

definition msg_invalid_permission :: "world \<Rightarrow> string \<Rightarrow> string" where
  "msg_invalid_permission w p =
     ''Invalid permission name: '' @ p @ ''. Valid permissions: '' @ join '', '' (Flags_keys w)"

text \<open>\<open>permissions.map(p => ...)\<close>: the first name that is not in the table throws.\<close>

fun validate_permissions :: "world \<Rightarrow> string list \<Rightarrow> string + int list" where
  "validate_permissions w [] = Inr []"
| "validate_permissions w (p # ps) =
     (case Flags w p of
        None \<Rightarrow> Inl (msg_invalid_permission w p)
      | Some b \<Rightarrow>
          (case validate_permissions w ps of Inl m \<Rightarrow> Inl m | Inr bs \<Rightarrow> Inr (b # bs)))"

definition validated :: "string list option \<Rightarrow> int list option action" where
  "validated permissions w =
     (case permissions of
        None \<Rightarrow> (Inr None, w)
      | Some ps \<Rightarrow>
          (case validate_permissions w ps of
             Inl m \<Rightarrow> (Inl (Error m), w)
           | Inr bs \<Rightarrow> (Inr (Some bs), w)))"

definition create_role :: "json option \<Rightarrow> response action" where
  "create_role args =
     bindA (parseA (CreateRoleSchema args))
       (\<lambda>(serverIdentifier, roleName, color, permissions, mentionable).
     bindA (findGuild serverIdentifier) (\<lambda>guild.
     bindA (readA (\<lambda>w. role_by_name roleName (roles_cache w (guild_id guild)))) (\<lambda>existingRole.
     if existingRole \<noteq> None then throwA (msg_role_exists roleName guild)
     else
       bindA (validated permissions) (\<lambda>validatedPermissions.
       bindA (remote (RolesCreate (guild_id guild)
                  \<lparr>opt_name = Some roleName, opt_color = color,
                   opt_permissions = validatedPermissions, opt_mentionable = mentionable\<rparr>)
                (\<lambda>w. roles_create_result w (guild_id guild)
                  \<lparr>opt_name = Some roleName, opt_color = color,
                   opt_permissions = validatedPermissions, opt_mentionable = mentionable\<rparr>))
         (\<lambda>createdRole.
       returnA (Text (''Successfully created role '' @ quoted (role_name createdRole)
                  @ '' (ID: '' @ role_id createdRole @ '') in server ''
                  @ quoted (guild_name guild) @ ''.'')))))))"

definition delete_role :: "json option \<Rightarrow> response action" where
  "delete_role args =
     bindA (parseA (DeleteRoleSchema args)) (\<lambda>(serverIdentifier, roleIdentifier).
     bindA (findGuild serverIdentifier) (\<lambda>guild.
     bindA (findRole roleIdentifier (Some (guild_id guild))) (\<lambda>role.
     bindA (remote (RoleDelete (guild_id guild) (role_id role))
              (\<lambda>w. role_delete_result w (guild_id guild) (role_id role))) (\<lambda>_.
     returnA (Text (''Successfully deleted role '' @ quoted (role_name role)
                @ '' (ID: '' @ role_id role @ '') from server ''
                @ quoted (guild_name guild) @ ''.''))))))"

definition msg_no_update :: string where
  "msg_no_update = ''No update parameters provided for the role.''"

text \<open>
  \<open>updates\<close> gets a key for each of the four new values that is not \<open>undefined\<close>;
  \<open>Object.keys(updates).length === 0\<close> when it has none.
\<close>

definition update_role :: "json option \<Rightarrow> response action" where
  "update_role args =
     bindA (parseA (UpdateRoleSchema args))
       (\<lambda>(serverIdentifier, roleIdentifier, newName, newColor, newPermissions, newMentionable).
     bindA (findGuild serverIdentifier) (\<lambda>guild.
     bindA (findRole roleIdentifier (Some (guild_id guild))) (\<lambda>role.
     bindA (validated newPermissions) (\<lambda>permissions.
     if newName = None \<and> newColor = None \<and> newMentionable = None \<and> permissions = None then
       throwA msg_no_update
     else
       bindA (remote (RoleEdit (guild_id guild) (role_id role)
                  \<lparr>opt_name = newName, opt_color = newColor,
                   opt_permissions = permissions, opt_mentionable = newMentionable\<rparr>)
                (\<lambda>w. role_edit_result w (guild_id guild) (role_id role)
                  \<lparr>opt_name = newName, opt_color = newColor,
                   opt_permissions = permissions, opt_mentionable = newMentionable\<rparr>))
         (\<lambda>updatedRole.
       returnA (Text (''Successfully updated role '' @ quoted (role_name updatedRole)
                  @ '' (ID: '' @ role_id updatedRole @ '') in server ''
                  @ quoted (guild_name guild) @ ''.'')))))))"

subsection \<open>Member counts\<close>

definition get_member_count :: "json option \<Rightarrow> response action" where
  "get_member_count args =
     bindA (parseA (GetMemberCountSchema args)) (\<lambda>serverIdentifier.
     bindA (findGuild serverIdentifier) (\<lambda>guild.
     bindA (members_fetch (guild_id guild)) (\<lambda>_.
     returnA (Text (''Server '' @ quoted (guild_name guild) @ '' has ''
                @ show_nat (memberCount guild) @ '' members.'')))))"

definition get_role_member_count :: "json option \<Rightarrow> response action" where
  "get_role_member_count args =
     bindA (parseA (GetRoleMemberCountSchema args)) (\<lambda>(serverIdentifier, roleIdentifier).
     bindA (findGuild serverIdentifier) (\<lambda>guild.
     bindA (findRole roleIdentifier (Some (guild_id guild))) (\<lambda>role.
     bindA (members_fetch (guild_id guild)) (\<lambda>_.
     bindA (readA (\<lambda>w. filter (\<lambda>m. has_role m role) (members_cache w (guild_id guild))))
       (\<lambda>membersWithRole.
     returnA (Text (''There are '' @ show_nat (length membersWithRole)
                @ '' members with the role '' @ quoted (role_name role) @ '' in server ''
                @ quoted (guild_name guild) @ ''.'')))))))"

section \<open>The tool call handler\<close>

text \<open>The tools of the \<open>ListToolsRequestSchema\<close> handler, each with its \<open>required\<close> keys.\<close>

definition tools :: "(string \<times> string list) list" where
  "tools =
     [(''send-message'', [''channel'', ''message'']),
      (''read-messages'', [''channel'']),
      (''list-channels'', []),
      (''list-servers'', []),
      (''create-channel'', [''channelName'']),
      (''read-multiple-channels'', []),
      (''list-roles'', []),
      (''assign-role'', [''user'', ''role'']),
      (''remove-role'', [''user'', ''role'']),
      (''create-role'', [''roleName'']),
      (''delete-role'', [''role'']),
      (''update-role'', [''role'']),
      (''get-member-count'', []),
      (''get-role-member-count'', [''role''])]"

text \<open>The \<open>switch\<close> on the name of the tool.\<close>

definition handler :: "string \<Rightarrow> json option \<Rightarrow> response action" where
  "handler name args =
     (if name = ''send-message'' then send_message args
      else if name = ''read-messages'' then read_messages args
      else if name = ''list-channels'' then list_channels args
      else if name = ''list-servers'' then list_servers args
      else if name = ''create-channel'' then create_channel args
      else if name = ''read-multiple-channels'' then read_multiple_channels args
      else if name = ''list-roles'' then list_roles args
      else if name = ''assign-role'' then assign_role args
      else if name = ''remove-role'' then remove_role args
      else if name = ''create-role'' then create_role args
      else if name = ''delete-role'' then delete_role args
      else if name = ''update-role'' then update_role args
      else if name = ''get-member-count'' then get_member_count args
      else if name = ''get-role-member-count'' then get_role_member_count args
      else throwA (''Unknown tool: '' @ name))"

text \<open>
  The \<open>catch\<close> of the handler: a \<open>ZodError\<close> becomes \<open>Invalid arguments: ...\<close> with every
  issue as \<open>path: message\<close>, any other error becomes \<open>Tool execution failed: ...\<close>.
  Every thrown value is one of the two, so the last \<open>throw\<close> of the \<open>catch\<close> is not
  reached.
\<close>

definition render_issue :: "issue \<Rightarrow> string" where
  "render_issue e = join ''.'' (issue_path e) @ '': '' @ issue_message e"

definition normalize :: "err \<Rightarrow> string" where
  "normalize e =
     (case e of
        ZodError issues \<Rightarrow> ''Invalid arguments: '' @ join '', '' (map render_issue issues)
      | Error m \<Rightarrow> ''Tool execution failed: '' @ m)"

definition callTool :: "string \<Rightarrow> json option \<Rightarrow> world \<Rightarrow> (string + response) \<times> world" where
  "callTool name args w =
     (case handler name args w of
        (Inl e, w1) \<Rightarrow> (Inl (normalize e), w1)
      | (Inr r, w1) \<Rightarrow> (Inr r, w1))"

text \<open>
  The issues that the first statement of each \<open>case\<close>, \<open>Schema.parse(args)\<close>, throws for
  the arguments of a tool (\<open>None\<close>: the arguments are valid, or the tool is unknown).
\<close>

definition thrown :: "'a parsed \<Rightarrow> issue list option" where
  "thrown r = (case r of Inl is \<Rightarrow> Some is | Inr _ \<Rightarrow> None)"

definition validation :: "string \<Rightarrow> json option \<Rightarrow> issue list option" where
  "validation name args =
     (if name = ''send-message'' then thrown (SendMessageSchema args)
      else if name = ''read-messages'' then thrown (ReadMessagesSchema args)
      else if name = ''list-channels'' then thrown (ListChannelsSchema args)
      else if name = ''list-servers'' then thrown (ListServersSchema args)
      else if name = ''create-channel'' then thrown (CreateChannelSchema args)
      else if name = ''read-multiple-channels'' then thrown (ReadMultipleChannelsSchema args)
      else if name = ''list-roles'' then thrown (ListRolesSchema args)
      else if name = ''assign-role'' then thrown (AssignRoleSchema args)
      else if name = ''remove-role'' then thrown (RemoveRoleSchema args)
      else if name = ''create-role'' then thrown (CreateRoleSchema args)
      else if name = ''delete-role'' then thrown (DeleteRoleSchema args)
      else if name = ''update-role'' then thrown (UpdateRoleSchema args)
      else if name = ''get-member-count'' then thrown (GetMemberCountSchema args)
      else if name = ''get-role-member-count'' then thrown (GetRoleMemberCountSchema args)
      else None)"

text \<open>A parse that fails with the issue \<open>i\<close> among its issues.\<close>

definition raises :: "issue \<Rightarrow> 'a parsed \<Rightarrow> bool" where
  "raises i r = (case r of Inl is \<Rightarrow> i \<in> set is | Inr _ \<Rightarrow> False)"

section \<open>Frames\<close>

text \<open>
  The calls that look something up, and the two ways a resolver may change the world:
  by logging such calls only, or by also refreshing the caches of roles and members.
\<close>

definition lookup_call :: "call \<Rightarrow> bool" where
  "lookup_call c = (case c of GuildsFetch _ \<Rightarrow> True | ChannelsFetch _ \<Rightarrow> True | RolesFetch _ \<Rightarrow> True
     | MemberFetch _ _ \<Rightarrow> True | MembersFetch _ \<Rightarrow> True | _ \<Rightarrow> False)"

definition only_calls :: "world \<Rightarrow> world \<Rightarrow> bool" where
  "only_calls w w' = (\<exists>cs. list_all lookup_call cs \<and> w' = w\<lparr>calls := calls w @ cs\<rparr>)"

definition only_lookups :: "world \<Rightarrow> world \<Rightarrow> bool" where
  "only_lookups w w' =
     (\<exists>cs rc mc. list_all lookup_call cs \<and>
        w' = w\<lparr>roles_cache := rc, members_cache := mc, calls := calls w @ cs\<rparr>)"

section \<open>A concrete collaborator\<close>

text \<open>
  Two joined servers. \<open>Alpha\<close> has the text channels \<open>general\<close>, \<open>news\<close>, \<open>dev\<close> and
  \<open>Dev\<close> and the voice channel \<open>lobby\<close>; the history of \<open>news\<close> cannot be read. The role
  \<open>Helper\<close> exists on the platform but is not in the cache yet.
\<close>

definition guildA :: guild where
  "guildA = \<lparr>guild_id = ''1'', guild_name = ''Alpha'', memberCount = 2\<rparr>"

definition guildB :: guild where
  "guildB = \<lparr>guild_id = ''2'', guild_name = ''Beta'', memberCount = 1\<rparr>"

definition ch_general :: channel where
  "ch_general = \<lparr>channel_id = ''10'', channel_name = ''general'', channel_kind = GuildText,
                 channel_guild = guildA\<rparr>"

definition ch_news :: channel where
  "ch_news = \<lparr>channel_id = ''11'', channel_name = ''news'', channel_kind = GuildText,
              channel_guild = guildA\<rparr>"

definition ch_lobby :: channel where
  "ch_lobby = \<lparr>channel_id = ''12'', channel_name = ''lobby'', channel_kind = OtherKind,
               channel_guild = guildA\<rparr>"

definition ch_dev :: channel where
  "ch_dev = \<lparr>channel_id = ''13'', channel_name = ''dev'', channel_kind = GuildText,
             channel_guild = guildA\<rparr>"

definition ch_Dev :: channel where
  "ch_Dev = \<lparr>channel_id = ''14'', channel_name = ''Dev'', channel_kind = GuildText,
             channel_guild = guildA\<rparr>"

definition ch_chat :: channel where
  "ch_chat = \<lparr>channel_id = ''20'', channel_name = ''chat'', channel_kind = GuildText,
              channel_guild = guildB\<rparr>"

definition r_moderator :: role where
  "r_moderator = \<lparr>role_id = ''30'', role_name = ''Moderator'', hexColor = ''#000000'',
                  position = 1, role_permissions = [], role_mentionable = False\<rparr>"

definition r_helper :: role where
  "r_helper = \<lparr>role_id = ''31'', role_name = ''Helper'', hexColor = ''#000000'',
               position = 2, role_permissions = [], role_mentionable = False\<rparr>"

definition m_alice :: member where
  "m_alice = \<lparr>member_id = ''40'', user_tag = ''alice#0001'', nickname = None,
              username = ''alice'', member_roles = [''30'']\<rparr>"

definition m_bob :: member where
  "m_bob = \<lparr>member_id = ''41'', user_tag = ''bob#0002'', nickname = Some ''Bobby'',
            username = ''bob'', member_roles = []\<rparr>"

definition msg_old :: message where
  "msg_old = \<lparr>message_id = ''50'', author_tag = ''alice#0001'', content = ''first'',
              createdAt = 1000\<rparr>"

definition msg_new :: message where
  "msg_new = \<lparr>message_id = ''51'', author_tag = ''bob#0002'', content = ''second'',
              createdAt = 2000\<rparr>"

definition demo :: world where
  "demo =
     \<lparr>guilds_cache = [guildA, guildB],
      channels_cache =
        (\<lambda>g. if g = ''1'' then [ch_general, ch_news, ch_lobby, ch_dev, ch_Dev]
             else if g = ''2'' then [ch_chat] else []),
      roles_cache = (\<lambda>g. if g = ''1'' then [r_moderator] else []),
      members_cache = (\<lambda>g. if g = ''1'' then [m_alice, m_bob] else []),
      calls = [],
      guilds_fetch_result =
        (\<lambda>i. if i = ''1'' then Inr (Some guildA)
             else if i = ''2'' then Inr (Some guildB) else Inl ''Unknown Guild''),
      channels_fetch_result =
        (\<lambda>i. if i = ''10'' then Inr (Some ch_general)
             else if i = ''11'' then Inr (Some ch_news)
             else if i = ''12'' then Inr (Some ch_lobby)
             else if i = ''13'' then Inr (Some ch_dev)
             else if i = ''14'' then Inr (Some ch_Dev)
             else if i = ''20'' then Inr (Some ch_chat) else Inl ''Unknown Channel''),
      roles_fetch_result = (\<lambda>g. if g = ''1'' then Inr [r_moderator, r_helper] else Inr []),
      member_fetch_result =
        (\<lambda>g u. if g = ''1'' \<and> u = ''40'' then Inr (Some m_alice)
               else if g = ''1'' \<and> u = ''41'' then Inr (Some m_bob) else Inl ''Unknown Member''),
      members_fetch_result = (\<lambda>g. if g = ''1'' then Inr [m_alice, m_bob] else Inr []),
      messages_fetch_result =
        (\<lambda>c l. if c = ''10'' then Inr [msg_old]
               else if c = ''13'' then Inr [msg_new]
               else if c = ''11'' then Inl ''Missing Access'' else Inr []),
      send_result = (\<lambda>c m. Inr ''60''),
      channels_create_result =
        (\<lambda>g n. Inr \<lparr>channel_id = ''70'', channel_name = n, channel_kind = GuildText,
                     channel_guild = guildA\<rparr>),
      roles_create_result = (\<lambda>g opts. Inl ''Missing Permissions''),
      role_edit_result = (\<lambda>g r opts. Inl ''Missing Permissions''),
      role_delete_result = (\<lambda>g r. Inr ()),
      roles_add_result = (\<lambda>g m r. Inr ()),
      roles_remove_result = (\<lambda>g m r. Inr ()),
      Flags_keys = [''SendMessages'', ''ManageMessages''],
      Flags = (\<lambda>p. if p = ''SendMessages'' then Some 2048
                   else if p = ''ManageMessages'' then Some 8192 else None)\<rparr>"

section \<open>Properties\<close>

text \<open>The definitions that a run on a concrete world unfolds.\<close>

lemmas action_defs = bindA_def parseA_def returnA_def throwA_def readA_def remote_def log_call_def

lemmas resolver_defs = findGuild_def findGuild_omitted_def findGuild_by_name_def findChannel_def
  findChannel_by_name_def channel_name_matches_def is_TextChannel_def findRole_def role_by_id_def
  role_by_name_def role_lookup_def roles_fetch_def findMember_def findMember_cached_def
  member_by_tag_def member_by_name_def member_lookup_def members_fetch_def clean_mention_def
  toLowerCase_def lower_char_def

lemmas schema_defs = z_object_def zap_def field_def server_field_def z_optional_def z_string_def
  z_boolean_def z_default_def z_number_min_max_def z_array_string_def invalid_type_def thrown_def

lemmas handler_defs = callTool_def handler_def normalize_def read_multiple_channels_def
  target_channels_def read_targets_def channel_entries_def format_message_def error_entry_def
  js_sort_def compare_entries_def

lemmas demo_entities = guildA_def guildB_def ch_general_def ch_news_def ch_lobby_def ch_dev_def
  ch_Dev_def ch_chat_def r_moderator_def r_helper_def m_alice_def m_bob_def msg_old_def msg_new_def

subsection \<open>What the resolvers leave unchanged\<close>

lemma only_calls_refl: "only_calls w w"
  unfolding only_calls_def by (rule exI[of _ "[]"]) simp

lemma only_calls_trans:
  assumes "only_calls w w1" and "only_calls w1 w2"
  shows "only_calls w w2"
proof -
  from assms(1) obtain cs where 1: "list_all lookup_call cs" "w1 = w\<lparr>calls := calls w @ cs\<rparr>"
    unfolding only_calls_def by blast
  from assms(2) obtain ds where 2: "list_all lookup_call ds" "w2 = w1\<lparr>calls := calls w1 @ ds\<rparr>"
    unfolding only_calls_def by blast
  have "list_all lookup_call (cs @ ds)" using 1(1) 2(1) by simp
  moreover have "w2 = w\<lparr>calls := calls w @ (cs @ ds)\<rparr>"
    using 1(2) 2(2) by simp
  ultimately show ?thesis unfolding only_calls_def by blast
qed

lemma only_calls_log: "lookup_call c \<Longrightarrow> only_calls w (log_call c w)"
  unfolding only_calls_def log_call_def by (rule exI[of _ "[c]"]) simp

lemma only_calls_lookups: "only_calls w w' \<Longrightarrow> only_lookups w w'"
  unfolding only_calls_def only_lookups_def
  apply (erule exE)
  subgoal for cs
    by (rule exI[of _ cs], rule exI[of _ "roles_cache w"], rule exI[of _ "members_cache w"]) simp
  done

lemma only_lookups_refl: "only_lookups w w"
  unfolding only_lookups_def
  by (rule exI[of _ "[]"], rule exI[of _ "roles_cache w"], rule exI[of _ "members_cache w"]) simp

lemma only_lookups_trans:
  assumes "only_lookups w w1" and "only_lookups w1 w2"
  shows "only_lookups w w2"
proof -
  from assms(1) obtain cs rc mc where 1: "list_all lookup_call cs"
    "w1 = w\<lparr>roles_cache := rc, members_cache := mc, calls := calls w @ cs\<rparr>"
    unfolding only_lookups_def by blast
  from assms(2) obtain ds rd md where 2: "list_all lookup_call ds"
    "w2 = w1\<lparr>roles_cache := rd, members_cache := md, calls := calls w1 @ ds\<rparr>"
    unfolding only_lookups_def by blast
  have "list_all lookup_call (cs @ ds)" using 1(1) 2(1) by simp
  moreover have "w2 = w\<lparr>roles_cache := rd, members_cache := md, calls := calls w @ (cs @ ds)\<rparr>"
    using 1(2) 2(2) by simp
  ultimately show ?thesis unfolding only_lookups_def by blast
qed

lemma only_lookups_log: "lookup_call c \<Longrightarrow> only_lookups w (log_call c w)"
  unfolding only_lookups_def log_call_def
  by (rule exI[of _ "[c]"], rule exI[of _ "roles_cache w"], rule exI[of _ "members_cache w"]) simp

lemma findGuild_only_calls: "only_calls w (snd (findGuild gi w))"
  by (auto simp: findGuild_def findGuild_omitted_def findGuild_by_name_def Let_def lookup_call_def
      only_calls_refl only_calls_log split: option.splits list.splits sum.splits)

lemma findGuild_only_lookups: "only_lookups w (snd (findGuild gi w))"
  by (rule only_calls_lookups[OF findGuild_only_calls])

lemma findChannel_only_calls: "only_calls w (snd (findChannel ci gi w))"
proof (cases "findGuild gi w")
  case (Pair r w1)
  then have 1: "only_calls w w1" using findGuild_only_calls[of w gi] by simp
  have 2: "only_calls w1 (log_call (ChannelsFetch ci) w1)"
    by (simp add: only_calls_log lookup_call_def)
  show ?thesis
    using Pair only_calls_trans[OF 1 2] 1
    by (auto simp: findChannel_def findChannel_by_name_def Let_def
        split: sum.splits option.splits)
qed

lemma only_lookupsI:
  "list_all lookup_call cs \<Longrightarrow>
   w' = w\<lparr>roles_cache := rc, members_cache := mc, calls := calls w @ cs\<rparr> \<Longrightarrow>
   only_lookups w w'"
  unfolding only_lookups_def by blast

lemma roles_fetch_only_lookups: "only_lookups w (snd (roles_fetch gid w))"
proof (cases "roles_fetch_result w gid")
  case (Inl m)
  show ?thesis
    by (rule only_lookupsI[where cs="[RolesFetch gid]" and rc="roles_cache w" and mc="members_cache w"])
       (simp_all add: Inl roles_fetch_def log_call_def lookup_call_def)
next
  case (Inr rs)
  show ?thesis
    by (rule only_lookupsI[where cs="[RolesFetch gid]" and rc="(roles_cache w)(gid := rs)" and mc="members_cache w"])
       (simp_all add: Inr roles_fetch_def log_call_def lookup_call_def)
qed

lemma members_fetch_only_lookups: "only_lookups w (snd (members_fetch gid w))"
proof (cases "members_fetch_result w gid")
  case (Inl m)
  show ?thesis
    by (rule only_lookupsI[where cs="[MembersFetch gid]" and rc="roles_cache w" and mc="members_cache w"])
       (simp_all add: Inl members_fetch_def log_call_def lookup_call_def)
next
  case (Inr ms)
  show ?thesis
    by (rule only_lookupsI[where cs="[MembersFetch gid]" and rc="roles_cache w" and mc="(members_cache w)(gid := ms)"])
       (simp_all add: Inr members_fetch_def log_call_def lookup_call_def)
qed

lemma findRole_only_lookups: "only_lookups w (snd (findRole ri gi w))"
proof (cases "findGuild gi w")
  case (Pair r w1)
  then have 1: "only_lookups w w1" using findGuild_only_lookups[of w gi] by simp
  show ?thesis
  proof (cases r)
    case (Inl e)
    then show ?thesis using Pair 1 by (simp add: findRole_def)
  next
    case (Inr g)
    have 2: "only_lookups w1 (snd (roles_fetch (guild_id g) w1))"
      by (rule roles_fetch_only_lookups)
    have 3: "only_lookups w (snd (roles_fetch (guild_id g) w1))"
      by (rule only_lookups_trans[OF 1 2])
    show ?thesis
      using Pair Inr 1 3
      by (cases "roles_fetch (guild_id g) w1")
         (auto simp: findRole_def split: option.splits sum.splits)
  qed
qed

lemma findMember_only_lookups: "only_lookups w (snd (findMember ui gi w))"
proof (cases "findGuild gi w")
  case (Pair r w1)
  then have 1: "only_lookups w w1" using findGuild_only_lookups[of w gi] by simp
  show ?thesis
  proof (cases r)
    case (Inl e)
    then show ?thesis using Pair 1 by (simp add: findMember_def)
  next
    case (Inr g)
    define w2 where "w2 = log_call (MemberFetch (guild_id g) (clean_mention ui)) w1"
    have 2: "only_lookups w w2"
      unfolding w2_def
      by (rule only_lookups_trans[OF 1]) (simp add: only_lookups_log lookup_call_def)
    have 3: "only_lookups w (snd (members_fetch (guild_id g) w2))"
      by (rule only_lookups_trans[OF 2 members_fetch_only_lookups])
    have 4: "only_lookups w (snd (findMember_cached ui g w2))"
      using 2 3
      by (cases "members_fetch (guild_id g) w2")
         (auto simp: findMember_cached_def split: option.splits sum.splits)
    show ?thesis
      using Pair Inr 2 4
      by (auto simp: findMember_def Let_def w2_def split: option.splits sum.splits)
  qed
qed

lemma only_lookups_mutation_calls: "only_lookups w w' \<Longrightarrow> mutation_calls w' = mutation_calls w"
proof -
  have "list_all lookup_call cs \<Longrightarrow> filter is_mutation cs = []" for cs
    by (induction cs) (auto simp: lookup_call_def split: call.splits)
  then show "only_lookups w w' \<Longrightarrow> mutation_calls w' = mutation_calls w"
    unfolding only_lookups_def mutation_calls_def by auto
qed

lemma only_lookups_fields:
  assumes "only_lookups w w'"
  shows "guilds_cache w' = guilds_cache w" "channels_cache w' = channels_cache w"
    "guilds_fetch_result w' = guilds_fetch_result w"
    "channels_fetch_result w' = channels_fetch_result w"
    "roles_fetch_result w' = roles_fetch_result w"
    "messages_fetch_result w' = messages_fetch_result w"
  using assms unfolding only_lookups_def by auto

lemma only_calls_fields:
  assumes "only_calls w w'"
  shows "guilds_cache w' = guilds_cache w" "channels_cache w' = channels_cache w"
    "roles_cache w' = roles_cache w" "members_cache w' = members_cache w"
    "guilds_fetch_result w' = guilds_fetch_result w"
    "channels_fetch_result w' = channels_fetch_result w"
    "roles_fetch_result w' = roles_fetch_result w"
    "messages_fetch_result w' = messages_fetch_result w"
  using assms unfolding only_calls_def by auto

lemma only_lookups_MessagesFetch:
  "only_lookups w w' \<Longrightarrow> MessagesFetch c l \<in> set (calls w') \<Longrightarrow> MessagesFetch c l \<in> set (calls w)"
proof -
  have "list_all lookup_call cs \<Longrightarrow> MessagesFetch c l \<notin> set cs" for cs
    by (induction cs) (auto simp: lookup_call_def)
  then show "only_lookups w w' \<Longrightarrow> MessagesFetch c l \<in> set (calls w') \<Longrightarrow>
      MessagesFetch c l \<in> set (calls w)"
    unfolding only_lookups_def by auto
qed

lemma demo_findGuild_1: "findGuild (Some ''1'') demo = (Inr guildA, log_call (GuildsFetch ''1'') demo)"
  by (simp add: findGuild_def demo_def)

subsection \<open>findGuild\<close>



subsection \<open>findChannel\<close>

text \<open>
  C3. When the server resolves and the fetch by ID resolves with a channel that is not a text
  channel, or is of another server, or with no channel, \<open>findChannel\<close> throws the error
  \<open>... is not a text channel or not found in server ...\<close>. Whatever \<open>findChannel\<close> returns
  is a text channel; it is the fetched channel only if that belongs to the resolved server, and
  otherwise comes from the cache of the resolved server after a failed fetch.
\<close>

theorem findChannel_by_id_scoped:
  "(\<forall>g w1 fetched. findGuild gi w = (Inr g, w1) \<and> channels_fetch_result w ci = Inr fetched \<and>
        (\<forall>c. fetched = Some c \<longrightarrow> \<not> is_TextChannel c \<or> guild_id (channel_guild c) \<noteq> guild_id g) \<longrightarrow>
      fst (findChannel ci gi w) =
        Inl (Error (''Channel '' @ quoted ci @ '' is not a text channel or not found in server ''
               @ quoted (guild_name g))))
   \<and> (\<forall>c. fst (findChannel ci gi w) = Inr c \<longrightarrow>
        is_TextChannel c \<and>
        (\<exists>g w1. findGuild gi w = (Inr g, w1) \<and>
           (if channels_fetch_result w ci = Inr (Some c) then guild_id (channel_guild c) = guild_id g
            else (\<exists>m. channels_fetch_result w ci = Inl m) \<and> c \<in> set (channels_cache w (guild_id g)))))"
proof (cases "findGuild gi w")
  case (Pair r w1)
  then have ol: "only_calls w w1" using findGuild_only_calls[of w gi] by simp
  note f = only_calls_fields[OF ol]
  have hd_filter: "xs \<noteq> [] \<Longrightarrow> hd xs \<in> set xs" for xs :: "channel list" by simp
  show ?thesis
  proof (cases r)
    case (Inl e)
    then show ?thesis using Pair by (simp add: findChannel_def)
  next
    case (Inr g)
    show ?thesis
    proof (cases "channels_fetch_result w ci")
      case (Inl m)
      let ?ms = "filter (channel_name_matches ci) (channels_cache w (guild_id g))"
      have "?ms \<noteq> [] \<Longrightarrow> hd ?ms \<in> set ?ms" by (rule hd_in_set)
      then have "?ms \<noteq> [] \<Longrightarrow> is_TextChannel (hd ?ms) \<and> hd ?ms \<in> set (channels_cache w (guild_id g))"
        by (auto simp: channel_name_matches_def)
      then show ?thesis
        using Pair Inr Inl f
        by (auto simp: findChannel_def findChannel_by_name_def Let_def log_call_def)
    next
      case (Inr fetched)
      then show ?thesis
        using Pair \<open>r = Inr g\<close> f
        by (cases fetched) (auto simp: findChannel_def Let_def msg_channel_not_text_def)
    qed
  qed
qed

theorem findChannel_by_id_scoped_witness:
  "fst (findChannel ''20'' (Some ''1'') demo) =
     Inl (Error (''Channel '' @ quoted ''20'' @ '' is not a text channel or not found in server ''
            @ quoted ''Alpha''))
   \<and> fst (findChannel ''12'' (Some ''1'') demo) =
     Inl (Error (''Channel '' @ quoted ''12'' @ '' is not a text channel or not found in server ''
            @ quoted ''Alpha''))
   \<and> fst (findChannel ''10'' (Some ''1'') demo) = Inr ch_general
   \<and> is_TextChannel ch_general \<and> guild_id (channel_guild ch_general) = guild_id guildA"
proof -
  have g: "findGuild (Some ''1'') demo = (Inr guildA, log_call (GuildsFetch ''1'') demo)"
    by (rule demo_findGuild_1)
  have f20: "channels_fetch_result demo ''20'' = Inr (Some ch_chat)"
    and f12: "channels_fetch_result demo ''12'' = Inr (Some ch_lobby)"
    and f10: "channels_fetch_result demo ''10'' = Inr (Some ch_general)"
    by (simp_all add: demo_def)
  have other: "guild_id (channel_guild ch_chat) \<noteq> guild_id guildA"
    by (simp add: ch_chat_def guildA_def guildB_def)
  have voice: "\<not> is_TextChannel ch_lobby"
    by (simp add: ch_lobby_def is_TextChannel_def)
  have name: "guild_name guildA = ''Alpha''" by (simp add: guildA_def)
  have r10: "fst (findChannel ''10'' (Some ''1'') demo) = Inr ch_general"
    using g f10 by (simp add: findChannel_def log_call_def ch_general_def guildA_def is_TextChannel_def)
  from findChannel_by_id_scoped[of "Some ''1''" demo "''20''"] g f20 other name
  have 1: "fst (findChannel ''20'' (Some ''1'') demo) =
     Inl (Error (''Channel '' @ quoted ''20'' @ '' is not a text channel or not found in server ''
            @ quoted ''Alpha''))"
    by auto
  from findChannel_by_id_scoped[of "Some ''1''" demo "''12''"] g f12 voice name
  have 2: "fst (findChannel ''12'' (Some ''1'') demo) =
     Inl (Error (''Channel '' @ quoted ''12'' @ '' is not a text channel or not found in server ''
            @ quoted ''Alpha''))"
    by auto
  from findChannel_by_id_scoped[of "Some ''1''" demo "''10''"] r10 g
  have 3: "is_TextChannel ch_general \<and> guild_id (channel_guild ch_general) = guild_id guildA"
    using f10 by auto
  show ?thesis using 1 2 3 r10 by simp
qed

text \<open>What the name filter accepts: \<open>#\<close> is its own lower case.\<close>

lemma lower_char_hash: "lower_char (CHR ''#'') = CHR ''#''"
  by (simp add: lower_char_def)

lemma lower_char_is_hash: "lower_char c = CHR ''#'' \<longleftrightarrow> c = CHR ''#''"
proof -
  have "map_of (zip ''ABCDEFGHIJKLMNOPQRSTUVWXYZ'' ''abcdefghijklmnopqrstuvwxyz'') c = Some l
      \<Longrightarrow> l \<noteq> CHR ''#''" for l
    by (auto split: if_splits)
  then show ?thesis
    by (auto simp: lower_char_def split: option.splits)
qed

lemma toLowerCase_no_hash: "CHR ''#'' \<notin> set n \<Longrightarrow> CHR ''#'' \<notin> set (toLowerCase n)"
proof
  assume a: "CHR ''#'' \<notin> set n" and "CHR ''#'' \<in> set (toLowerCase n)"
  then obtain x where "x \<in> set n" "lower_char x = CHR ''#''"
    by (auto simp: toLowerCase_def)
  then show False using a lower_char_is_hash[of x] by simp
qed

lemma replace_first_absent: "c \<notin> set xs \<Longrightarrow> replace_first c xs = xs"
  by (induction xs) auto

text \<open>
  The filter of the \<open>catch\<close> block, both ways: an identifier without \<open>#\<close> matches the
  text channels with that name, in any case, and no other channel; an identifier with a
  leading \<open>#\<close> matches the text channels named as the rest of it or as the whole of it.
\<close>

lemma channel_name_matches_bare:
  "CHR ''#'' \<notin> set n \<Longrightarrow>
   channel_name_matches n c \<longleftrightarrow> is_TextChannel c \<and> toLowerCase (channel_name c) = toLowerCase n"
  by (simp add: channel_name_matches_def replace_first_absent toLowerCase_no_hash)

lemma channel_name_matches_sigil:
  "channel_name_matches (CHR ''#'' # n) c \<longleftrightarrow>
     is_TextChannel c \<and>
     (toLowerCase (channel_name c) = toLowerCase n
      \<or> toLowerCase (channel_name c) = CHR ''#'' # toLowerCase n)"
  by (auto simp: channel_name_matches_def toLowerCase_def lower_char_hash)

text \<open>
  When the server resolves and the fetch by ID is rejected, the outcome is fixed by the
  channels that pass the filter: none gives the error that lists all text channels of the
  server, exactly one gives that channel, two or more give the error that lists every
  candidate as \<open>#name (id)\<close>.
\<close>

lemma findChannel_by_name_outcome:
  "(\<forall>g w1 m. findGuild gi w = (Inr g, w1) \<and> channels_fetch_result w ci = Inl m \<longrightarrow>
      fst (findChannel ci gi w) =
        (case filter (channel_name_matches ci) (channels_cache w (guild_id g)) of
           [] \<Rightarrow>
             Inl (Error (''Channel '' @ quoted ci @ '' not found in server '' @ quoted (guild_name g)
                    @ ''. Available channels: ''
                    @ join '', '' (map (\<lambda>c. quoted (''#'' @ channel_name c))
                                     (filter is_TextChannel (channels_cache w (guild_id g))))))
         | [c] \<Rightarrow> Inr c
         | c # d # cs \<Rightarrow>
             Inl (Error (''Multiple channels found with name '' @ quoted ci @ '' in server ''
                    @ quoted (guild_name g) @ '': ''
                    @ join '', '' (map (\<lambda>c. ''#'' @ channel_name c @ '' ('' @ channel_id c @ '')'')
                                     (c # d # cs))
                    @ ''. Please specify the channel ID.''))))
   \<and> (\<forall>c n. channel_name_matches n c \<longrightarrow> is_TextChannel c)
   \<and> (\<forall>c n. is_TextChannel c \<and> toLowerCase n = toLowerCase (channel_name c) \<longrightarrow>
          channel_name_matches n c \<and> channel_name_matches (''#'' @ n) c)"
proof (intro conjI allI impI)
  fix g w1 m
  assume a: "findGuild gi w = (Inr g, w1) \<and> channels_fetch_result w ci = Inl m"
  then have ol: "only_calls w w1" using findGuild_only_calls[of w gi] by simp
  note f = only_calls_fields[OF ol]
  show "fst (findChannel ci gi w) =
        (case filter (channel_name_matches ci) (channels_cache w (guild_id g)) of
           [] \<Rightarrow>
             Inl (Error (''Channel '' @ quoted ci @ '' not found in server '' @ quoted (guild_name g)
                    @ ''. Available channels: ''
                    @ join '', '' (map (\<lambda>c. quoted (''#'' @ channel_name c))
                                     (filter is_TextChannel (channels_cache w (guild_id g))))))
         | [c] \<Rightarrow> Inr c
         | c # d # cs \<Rightarrow>
             Inl (Error (''Multiple channels found with name '' @ quoted ci @ '' in server ''
                    @ quoted (guild_name g) @ '': ''
                    @ join '', '' (map (\<lambda>c. ''#'' @ channel_name c @ '' ('' @ channel_id c @ '')'')
                                     (c # d # cs))
                    @ ''. Please specify the channel ID.'')))"
    using a f
    by (simp add: findChannel_def findChannel_by_name_def Let_def log_call_def
        msg_channel_not_found_def msg_multiple_channels_def split: list.splits)
next
  fix c n assume "channel_name_matches n c"
  then show "is_TextChannel c" by (simp add: channel_name_matches_def)
next
  fix c n assume "is_TextChannel c \<and> toLowerCase n = toLowerCase (channel_name c)"
  then show "channel_name_matches n c" by (simp add: channel_name_matches_def)
next
  fix c n assume "is_TextChannel c \<and> toLowerCase n = toLowerCase (channel_name c)"
  then show "channel_name_matches (''#'' @ n) c"
    by (simp add: channel_name_matches_def toLowerCase_def lower_char_hash)
qed

lemma findChannel_by_name_outcome_demo:
  "fst (findChannel ''General'' (Some ''1'') demo) = Inr ch_general
   \<and> fst (findChannel ''#GENERAL'' (Some ''1'') demo) = Inr ch_general
   \<and> fst (findChannel ''#dev'' (Some ''1'') demo) =
       Inl (Error (''Multiple channels found with name '' @ quoted ''#dev'' @ '' in server ''
              @ quoted ''Alpha'' @ '': #dev (13), #Dev (14). Please specify the channel ID.''))
   \<and> fst (findChannel ''lobby'' (Some ''1'') demo) =
       Inl (Error (''Channel '' @ quoted ''lobby'' @ '' not found in server '' @ quoted ''Alpha''
              @ ''. Available channels: '' @ quoted ''#general'' @ '', '' @ quoted ''#news''
              @ '', '' @ quoted ''#dev'' @ '', '' @ quoted ''#Dev''))
   \<and> channel_name_matches ''GENERAL'' ch_general
   \<and> channel_name_matches ''#GENERAL'' ch_general
   \<and> is_TextChannel ch_general"
proof -
  have g: "findGuild (Some ''1'') demo = (Inr guildA, log_call (GuildsFetch ''1'') demo)"
    by (rule demo_findGuild_1)
  have f: "channels_fetch_result demo ''General'' = Inl ''Unknown Channel''"
    "channels_fetch_result demo ''#GENERAL'' = Inl ''Unknown Channel''"
    "channels_fetch_result demo ''#dev'' = Inl ''Unknown Channel''"
    "channels_fetch_result demo ''lobby'' = Inl ''Unknown Channel''"
    by (simp_all add: demo_def)
  have cache: "channels_cache demo (guild_id guildA) = [ch_general, ch_news, ch_lobby, ch_dev, ch_Dev]"
    by (simp add: demo_def guildA_def)
  have name: "guild_name guildA = ''Alpha''" by (simp add: guildA_def)
  have m1: "filter (channel_name_matches ''General'') [ch_general, ch_news, ch_lobby, ch_dev, ch_Dev] = [ch_general]"
    and m2: "filter (channel_name_matches ''#GENERAL'') [ch_general, ch_news, ch_lobby, ch_dev, ch_Dev] = [ch_general]"
    and m3: "filter (channel_name_matches ''#dev'') [ch_general, ch_news, ch_lobby, ch_dev, ch_Dev] = [ch_dev, ch_Dev]"
    and m4: "filter (channel_name_matches ''lobby'') [ch_general, ch_news, ch_lobby, ch_dev, ch_Dev] = []"
    and t: "filter is_TextChannel [ch_general, ch_news, ch_lobby, ch_dev, ch_Dev] = [ch_general, ch_news, ch_dev, ch_Dev]"
    by (simp_all add: channel_name_matches_def is_TextChannel_def toLowerCase_def lower_char_def
        demo_entities)
  have istext: "is_TextChannel ch_general \<and> toLowerCase ''GENERAL'' = toLowerCase (channel_name ch_general)"
    by (simp add: is_TextChannel_def toLowerCase_def lower_char_def ch_general_def)
  note inst = findChannel_by_name_outcome[of "Some ''1''" demo, THEN conjunct1, rule_format]
  have 1: "fst (findChannel ''General'' (Some ''1'') demo) = Inr ch_general"
    using inst[OF conjI[OF g f(1)], unfolded cache m1] by simp
  have 2: "fst (findChannel ''#GENERAL'' (Some ''1'') demo) = Inr ch_general"
    using inst[OF conjI[OF g f(2)], unfolded cache m2] by simp
  have 3: "fst (findChannel ''#dev'' (Some ''1'') demo) =
       Inl (Error (''Multiple channels found with name '' @ quoted ''#dev'' @ '' in server ''
              @ quoted ''Alpha'' @ '': #dev (13), #Dev (14). Please specify the channel ID.''))"
    using inst[OF conjI[OF g f(3)], unfolded cache m3] by (simp add: name ch_dev_def ch_Dev_def)
  have 4: "fst (findChannel ''lobby'' (Some ''1'') demo) =
       Inl (Error (''Channel '' @ quoted ''lobby'' @ '' not found in server '' @ quoted ''Alpha''
              @ ''. Available channels: '' @ quoted ''#general'' @ '', '' @ quoted ''#news''
              @ '', '' @ quoted ''#dev'' @ '', '' @ quoted ''#Dev''))"
    using inst[OF conjI[OF g f(4)], unfolded cache m4 t] by (simp add: name demo_entities)
  have 5: "channel_name_matches ''GENERAL'' ch_general \<and> channel_name_matches ''#GENERAL'' ch_general"
    using findChannel_by_name_outcome[of "Some ''1''" demo "''x''"] istext by simp
  have 6: "is_TextChannel ch_general"
    using findChannel_by_name_outcome[of "Some ''1''" demo "''x''", THEN conjunct2, THEN conjunct1,
        rule_format, of "''GENERAL''" ch_general] 5
    by simp
  show ?thesis using 1 2 3 4 5 6 by simp
qed

text \<open>
  C6 at an identifier with \<open>#\<close> inside. No channel of the server is named
  \<open>gen#eral\<close>, with or without a leading \<open>#\<close>, in any case: the identifier has no
  match, and the outcome should be the error that lists the text channels. The filter
  removes the first \<open>#\<close> wherever it stands, so the channel \<open>general\<close> is returned.
\<close>

theorem findChannel_inner_hash:
  "fst (findChannel ''gen#eral'' (Some ''1'') demo) = Inr ch_general
   \<and> channel_name ch_general = ''general''
   \<and> filter (\<lambda>c. toLowerCase (channel_name c) = toLowerCase ''gen#eral''
                 \<or> toLowerCase (''#'' @ channel_name c) = toLowerCase ''gen#eral'')
        (channels_cache demo ''1'') = []"
  by (simp add: resolver_defs log_call_def demo_def demo_entities)

subsection \<open>findRole\<close>




subsection \<open>Validation\<close>

lemma raises_zap_left: "raises i pf \<Longrightarrow> raises i (zap pf pa)"
  by (auto simp: raises_def zap_def split: sum.splits)

lemma raises_zap_right: "raises i pa \<Longrightarrow> raises i (zap pf pa)"
  by (auto simp: raises_def zap_def split: sum.splits)

lemma raises_required:
  "obj k = None \<Longrightarrow> raises \<lparr>issue_path = [k], issue_message = ''Required''\<rparr> (field z_string k obj)"
  by (simp add: raises_def field_def z_string_def invalid_type_def)

lemma raises_thrown: "raises i r \<Longrightarrow> \<exists>is. thrown r = Some is \<and> i \<in> set is"
  by (auto simp: raises_def thrown_def split: sum.splits)

lemmas raises_intros = raises_zap_left raises_zap_right raises_required

lemma required_send_message:
  "f \<in> {''channel'', ''message''} \<Longrightarrow> map_of kvs f = None \<Longrightarrow>
   raises \<lparr>issue_path = [f], issue_message = ''Required''\<rparr> (SendMessageSchema (Some (JObj kvs)))"
  by (simp add: SendMessageSchema_def z_object_def) (blast intro: raises_intros)

lemma required_read_messages:
  "map_of kvs ''channel'' = None \<Longrightarrow>
   raises \<lparr>issue_path = [''channel''], issue_message = ''Required''\<rparr> (ReadMessagesSchema (Some (JObj kvs)))"
  by (simp add: ReadMessagesSchema_def z_object_def) (blast intro: raises_intros)

lemma required_create_channel:
  "map_of kvs ''channelName'' = None \<Longrightarrow>
   raises \<lparr>issue_path = [''channelName''], issue_message = ''Required''\<rparr> (CreateChannelSchema (Some (JObj kvs)))"
  by (simp add: CreateChannelSchema_def z_object_def) (blast intro: raises_intros)

lemma required_assign_role:
  "f \<in> {''user'', ''role''} \<Longrightarrow> map_of kvs f = None \<Longrightarrow>
   raises \<lparr>issue_path = [f], issue_message = ''Required''\<rparr> (AssignRoleSchema (Some (JObj kvs)))"
  by (simp add: AssignRoleSchema_def z_object_def) (blast intro: raises_intros)

lemma required_remove_role:
  "f \<in> {''user'', ''role''} \<Longrightarrow> map_of kvs f = None \<Longrightarrow>
   raises \<lparr>issue_path = [f], issue_message = ''Required''\<rparr> (RemoveRoleSchema (Some (JObj kvs)))"
  by (simp add: RemoveRoleSchema_def z_object_def) (blast intro: raises_intros)

lemma required_create_role:
  "map_of kvs ''roleName'' = None \<Longrightarrow>
   raises \<lparr>issue_path = [''roleName''], issue_message = ''Required''\<rparr> (CreateRoleSchema (Some (JObj kvs)))"
  by (simp add: CreateRoleSchema_def z_object_def) (blast intro: raises_intros)

lemma required_delete_role:
  "map_of kvs ''role'' = None \<Longrightarrow>
   raises \<lparr>issue_path = [''role''], issue_message = ''Required''\<rparr> (DeleteRoleSchema (Some (JObj kvs)))"
  by (simp add: DeleteRoleSchema_def z_object_def) (blast intro: raises_intros)

lemma required_update_role:
  "map_of kvs ''role'' = None \<Longrightarrow>
   raises \<lparr>issue_path = [''role''], issue_message = ''Required''\<rparr> (UpdateRoleSchema (Some (JObj kvs)))"
  by (simp add: UpdateRoleSchema_def z_object_def) (blast intro: raises_intros)

lemma required_get_role_member_count:
  "map_of kvs ''role'' = None \<Longrightarrow>
   raises \<lparr>issue_path = [''role''], issue_message = ''Required''\<rparr> (GetRoleMemberCountSchema (Some (JObj kvs)))"
  by (simp add: GetRoleMemberCountSchema_def z_object_def) (blast intro: raises_intros)

lemma parse_first:
  "thrown r = Some is \<Longrightarrow> bindA (parseA r) f w = (Inl (ZodError is), w)"
  by (simp add: thrown_def bindA_def parseA_def split: sum.splits)

lemma validation_first:
  "validation name args = Some is \<Longrightarrow> handler name args w = (Inl (ZodError is), w)"
  unfolding validation_def handler_def
  by (simp add: parse_first send_message_def read_messages_def list_channels_def list_servers_def
      create_channel_def read_multiple_channels_def list_roles_def assign_role_def remove_role_def
      create_role_def delete_role_def update_role_def get_member_count_def
      get_role_member_count_def split: if_splits)


lemma tools_required_cases:
  assumes "(name, req) \<in> set tools" and "f \<in> set req"
  shows "(name = ''send-message'' \<and> f \<in> {''channel'', ''message''})
      \<or> (name = ''read-messages'' \<and> f = ''channel'')
      \<or> (name = ''create-channel'' \<and> f = ''channelName'')
      \<or> (name = ''assign-role'' \<and> f \<in> {''user'', ''role''})
      \<or> (name = ''remove-role'' \<and> f \<in> {''user'', ''role''})
      \<or> (name = ''create-role'' \<and> f = ''roleName'')
      \<or> (name = ''delete-role'' \<and> f = ''role'')
      \<or> (name = ''update-role'' \<and> f = ''role'')
      \<or> (name = ''get-role-member-count'' \<and> f = ''role'')"
  using assms unfolding tools_def
  apply (simp only: set_simps insert_iff empty_iff prod.inject)
  apply (elim disjE conjE)
  apply simp_all
  done

lemma required_in_tools:
  fixes kvs :: "(string \<times> json) list"
  assumes "(name, req) \<in> set tools" and "f \<in> set req" and "map_of kvs f = None"
  shows "\<exists>is. validation name (Some (JObj kvs)) = Some is
           \<and> \<lparr>issue_path = [f], issue_message = ''Required''\<rparr> \<in> set is"
proof -
  have "(name = ''send-message'' \<and> f \<in> {''channel'', ''message''})
      \<or> (name = ''read-messages'' \<and> f = ''channel'')
      \<or> (name = ''create-channel'' \<and> f = ''channelName'')
      \<or> (name = ''assign-role'' \<and> f \<in> {''user'', ''role''})
      \<or> (name = ''remove-role'' \<and> f \<in> {''user'', ''role''})
      \<or> (name = ''create-role'' \<and> f = ''roleName'')
      \<or> (name = ''delete-role'' \<and> f = ''role'')
      \<or> (name = ''update-role'' \<and> f = ''role'')
      \<or> (name = ''get-role-member-count'' \<and> f = ''role'')"
    by (rule tools_required_cases[OF assms(1,2)])
  then show ?thesis
  proof (elim disjE conjE)
    assume "name = ''send-message''" "f \<in> {''channel'', ''message''}"
    then show ?thesis
      using required_send_message[OF _ assms(3)] by (simp add: validation_def raises_thrown)
  next
    assume "name = ''read-messages''" "f = ''channel''"
    then show ?thesis
      using required_read_messages[of kvs] assms(3) by (simp add: validation_def raises_thrown)
  next
    assume "name = ''create-channel''" "f = ''channelName''"
    then show ?thesis
      using required_create_channel[of kvs] assms(3) by (simp add: validation_def raises_thrown)
  next
    assume "name = ''assign-role''" "f \<in> {''user'', ''role''}"
    then show ?thesis
      using required_assign_role[OF _ assms(3)] by (simp add: validation_def raises_thrown)
  next
    assume "name = ''remove-role''" "f \<in> {''user'', ''role''}"
    then show ?thesis
      using required_remove_role[OF _ assms(3)] by (simp add: validation_def raises_thrown)
  next
    assume "name = ''create-role''" "f = ''roleName''"
    then show ?thesis
      using required_create_role[of kvs] assms(3) by (simp add: validation_def raises_thrown)
  next
    assume "name = ''delete-role''" "f = ''role''"
    then show ?thesis
      using required_delete_role[of kvs] assms(3) by (simp add: validation_def raises_thrown)
  next
    assume "name = ''update-role''" "f = ''role''"
    then show ?thesis
      using required_update_role[of kvs] assms(3) by (simp add: validation_def raises_thrown)
  next
    assume "name = ''get-role-member-count''" "f = ''role''"
    then show ?thesis
      using required_get_role_member_count[of kvs] assms(3)
      by (simp add: validation_def raises_thrown)
  qed
qed

text \<open>
  C8. For every tool, the arguments are validated before anything else: when the schema of
  the tool rejects them, the call fails with \<open>Invalid arguments: ...\<close>, which lists every
  issue as \<open>path: message\<close>, and the world is as before (no resolver and no collaborator
  call has run). When the arguments are a record without a key that the tool requires, the
  schema rejects them and \<open>key: Required\<close> is one of the issues listed.
\<close>

theorem validation_before_resolution:
  "(\<forall>name args issues. validation name args = Some issues \<longrightarrow>
      callTool name args w =
        (Inl (''Invalid arguments: '' @ join '', '' (map render_issue issues)), w))
   \<and> (\<forall>name req f (kvs :: (string \<times> json) list). (name, req) \<in> set tools \<and> f \<in> set req \<and> map_of kvs f = None \<longrightarrow>
        (\<exists>issues. validation name (Some (JObj kvs)) = Some issues
           \<and> \<lparr>issue_path = [f], issue_message = ''Required''\<rparr> \<in> set issues))
   \<and> (\<forall>f. render_issue \<lparr>issue_path = [f], issue_message = ''Required''\<rparr> = f @ '': Required'')"
proof (intro conjI allI impI)
  fix name args issues
  assume "validation name args = Some issues"
  then show "callTool name args w =
        (Inl (''Invalid arguments: '' @ join '', '' (map render_issue issues)), w)"
    by (simp add: callTool_def validation_first normalize_def)
next
  fix name req f and kvs :: "(string \<times> json) list"
  assume "(name, req) \<in> set tools \<and> f \<in> set req \<and> map_of kvs f = None"
  then show "\<exists>issues. validation name (Some (JObj kvs)) = Some issues
           \<and> \<lparr>issue_path = [f], issue_message = ''Required''\<rparr> \<in> set issues"
    using required_in_tools by blast
next
  fix f
  show "render_issue \<lparr>issue_path = [f], issue_message = ''Required''\<rparr> = f @ '': Required''"
    by (simp add: render_issue_def)
qed

theorem validation_before_resolution_witness:
  "callTool ''send-message'' (Some (JObj [(''server'', JStr ''nowhere'')])) demo =
     (Inl ''Invalid arguments: channel: Required, message: Required'', demo)
   \<and> (\<exists>issues. validation ''update-role'' (Some (JObj [(''newName'', JStr ''x'')])) = Some issues
         \<and> \<lparr>issue_path = [''role''], issue_message = ''Required''\<rparr> \<in> set issues)"
proof -
  have v: "validation ''send-message'' (Some (JObj [(''server'', JStr ''nowhere'')])) =
      Some [\<lparr>issue_path = [''channel''], issue_message = ''Required''\<rparr>,
            \<lparr>issue_path = [''message''], issue_message = ''Required''\<rparr>]"
    by (simp add: validation_def thrown_def SendMessageSchema_def z_object_def zap_def field_def
        server_field_def z_optional_def z_string_def invalid_type_def)
  have t: "(''update-role'', [''role'']) \<in> set tools \<and> ''role'' \<in> set [''role'']
      \<and> map_of [(''newName'', JStr ''x'')] ''role'' = None"
    by (simp add: tools_def)
  note a = validation_before_resolution[of demo, THEN conjunct1, rule_format, OF v]
  note b = validation_before_resolution[of demo, THEN conjunct2, THEN conjunct1, rule_format, OF t]
  show ?thesis using a b by (simp add: render_issue_def)
qed

subsection \<open>Limits\<close>

lemma zap_Inr: "zap pf pa = Inr y \<longleftrightarrow> (\<exists>f a. pf = Inr f \<and> pa = Inr a \<and> y = f a)"
  by (auto simp: zap_def split: sum.splits)

lemma z_number_min_max_bounds:
  "z_number_min_max lo hi p v = Inr x \<Longrightarrow> real lo \<le> x \<and> x \<le> real hi"
  by (auto simp: z_number_min_max_def Let_def split: option.splits json.splits if_splits)

lemma z_default_number:
  "z_default (z_number_min_max lo hi) d p v = Inr x \<Longrightarrow>
   real lo \<le> x \<and> x \<le> real hi \<and> (v = None \<longrightarrow> z_number_min_max lo hi p (Some d) = Inr x)"
  by (auto simp: z_default_def dest: z_number_min_max_bounds split: option.splits)

lemma default_50: "z_number_min_max 1 100 p (Some (JNum 50)) = Inr x \<longleftrightarrow> x = 50"
  by (auto simp: z_number_min_max_def)

lemma default_10: "z_number_min_max 1 50 p (Some (JNum 10)) = Inr x \<longleftrightarrow> x = 10"
  by (auto simp: z_number_min_max_def)

lemma ReadMessagesSchema_limit:
  assumes "ReadMessagesSchema args = Inr (s, c, l)"
  shows "1 \<le> l \<and> l \<le> 100 \<and> (\<forall>kvs. args = Some (JObj kvs) \<and> map_of kvs ''limit'' = None \<longrightarrow> l = 50)"
proof -
  from assms obtain obj where obj: "z_object args = Inr obj"
    and l: "field (z_default (z_number_min_max 1 100) (JNum 50)) ''limit'' obj = Inr l"
    by (auto simp: ReadMessagesSchema_def zap_Inr split: sum.splits)
  from l have "1 \<le> l \<and> l \<le> 100 \<and> (obj ''limit'' = None \<longrightarrow> l = 50)"
    using z_default_number[of 1 100 "JNum 50" "[''limit'']" "obj ''limit''" l]
      default_50[of "[''limit'']" l]
    by (auto simp: field_def)
  moreover have "args = Some (JObj kvs) \<Longrightarrow> obj = map_of kvs" for kvs
    using obj by (simp add: z_object_def)
  ultimately show ?thesis by auto
qed

lemma ReadMultipleChannelsSchema_limit:
  assumes "ReadMultipleChannelsSchema args = Inr (s, c, l)"
  shows "1 \<le> l \<and> l \<le> 50
    \<and> (\<forall>kvs. args = Some (JObj kvs) \<and> map_of kvs ''limitPerChannel'' = None \<longrightarrow> l = 10)"
proof -
  from assms obtain obj where obj: "z_object args = Inr obj"
    and l: "field (z_default (z_number_min_max 1 50) (JNum 10)) ''limitPerChannel'' obj = Inr l"
    by (auto simp: ReadMultipleChannelsSchema_def zap_Inr split: sum.splits)
  from l have "1 \<le> l \<and> l \<le> 50 \<and> (obj ''limitPerChannel'' = None \<longrightarrow> l = 10)"
    using z_default_number[of 1 50 "JNum 10" "[''limitPerChannel'']" "obj ''limitPerChannel''" l]
      default_10[of "[''limitPerChannel'']" l]
    by (auto simp: field_def)
  moreover have "args = Some (JObj kvs) \<Longrightarrow> obj = map_of kvs" for kvs
    using obj by (simp add: z_object_def)
  ultimately show ?thesis by auto
qed

lemma only_calls_MessagesFetch:
  "only_calls w w' \<Longrightarrow> MessagesFetch c l \<in> set (calls w') \<Longrightarrow> MessagesFetch c l \<in> set (calls w)"
  by (rule only_lookups_MessagesFetch[OF only_calls_lookups])

lemma read_messages_fetches:
  assumes "read_messages args w = (r, w')" and "MessagesFetch c l \<in> set (calls w')"
  shows "MessagesFetch c l \<in> set (calls w) \<or> (\<exists>s ci. ReadMessagesSchema args = Inr (s, ci, l))"
proof (cases "ReadMessagesSchema args")
  case (Inl iss)
  then show ?thesis using assms by (simp add: read_messages_def bindA_def parseA_def)
next
  case (Inr a)
  obtain s ci l0 where a: "a = (s, ci, l0)" by (cases a) auto
  obtain rc w1 where fc: "findChannel ci s w = (rc, w1)" by (cases "findChannel ci s w") auto
  then have oc: "only_calls w w1" using findChannel_only_calls[of w ci s] by simp
  show ?thesis
  proof (cases rc)
    case (Inl e)
    then have "w' = w1" using assms(1) Inr a fc by (simp add: read_messages_def bindA_def parseA_def)
    then show ?thesis using only_calls_MessagesFetch[OF oc] assms(2) by simp
  next
    case ch: (Inr ch)
    then have "w' = log_call (MessagesFetch (channel_id ch) l0) w1"
      using assms(1) Inr a fc
      by (auto simp: read_messages_def bindA_def parseA_def remote_def returnA_def split: sum.splits)
    then have "MessagesFetch c l \<in> set (calls w1) \<or> l = l0"
      using assms(2) by (auto simp: log_call_def)
    then show ?thesis using only_calls_MessagesFetch[OF oc] Inr a by auto
  qed
qed

lemma resolve_all_only_calls: "only_calls w (snd (resolve_all ids gid w))"
proof (induction ids arbitrary: w)
  case Nil
  show ?case by (simp add: only_calls_refl)
next
  case (Cons ci ids)
  obtain r w1 where fc: "findChannel ci (Some gid) w = (r, w1)"
    by (cases "findChannel ci (Some gid) w") auto
  then have 1: "only_calls w w1" using findChannel_only_calls[of w ci "Some gid"] by simp
  have 2: "only_calls w1 (snd (resolve_all ids gid w1))" by (rule Cons.IH)
  show ?case
    using only_calls_trans[OF 1 2] fc by (cases "resolve_all ids gid w1") auto
qed

lemma gather_calls:
  "calls (snd (gather l cs w)) = calls w @ map (\<lambda>c. MessagesFetch (channel_id c) l) cs"
  by (induction cs arbitrary: w) (simp_all add: log_call_def case_prod_unfold)

lemma read_multiple_channels_fetches:
  assumes "read_multiple_channels args w = (r, w')" and "MessagesFetch c l \<in> set (calls w')"
  shows "MessagesFetch c l \<in> set (calls w) \<or> (\<exists>s cs. ReadMultipleChannelsSchema args = Inr (s, cs, l))"
proof (cases "ReadMultipleChannelsSchema args")
  case (Inl iss)
  then show ?thesis using assms by (simp add: read_multiple_channels_def bindA_def parseA_def)
next
  case (Inr a)
  obtain s ids l0 where a: "a = (s, ids, l0)" by (cases a) auto
  obtain rg w1 where fg: "findGuild s w = (rg, w1)" by (cases "findGuild s w") auto
  then have oc1: "only_calls w w1" using findGuild_only_calls[of w s] by simp
  show ?thesis
  proof (cases rg)
    case (Inl e)
    then have "w' = w1"
      using assms(1) Inr a fg by (simp add: read_multiple_channels_def bindA_def parseA_def)
    then show ?thesis using only_calls_MessagesFetch[OF oc1] assms(2) by simp
  next
    case g: (Inr g)
    obtain rt w2 where t: "target_channels g ids w1 = (rt, w2)"
      by (cases "target_channels g ids w1") auto
    have "only_calls w1 (snd (target_channels g ids w1))"
      unfolding target_channels_def
      by (auto simp: readA_def only_calls_refl resolve_all_only_calls split: option.splits)
    then have oc2: "only_calls w w2" using only_calls_trans[OF oc1] t by simp
    have run: "(r, w') =
      (case rt of Inl e \<Rightarrow> (Inl e, w2) | Inr targetChannels \<Rightarrow> read_targets g l0 targetChannels w2)"
      using assms(1) by (simp add: read_multiple_channels_def bindA_def parseA_def Inr a fg g t)
    have rt_calls: "calls (snd (read_targets g l0 tc w2)) =
        calls w2 \<or> calls (snd (read_targets g l0 tc w2)) =
        calls w2 @ map (\<lambda>c. MessagesFetch (channel_id c) l0) tc" for tc
      using gather_calls[of l0 tc w2] by (simp add: read_targets_def case_prod_unfold)
    have "MessagesFetch c l \<in> set (calls w2) \<or> l = l0"
    proof (cases rt)
      case (Inl e)
      then show ?thesis using run assms(2) by simp
    next
      case (Inr tc)
      then have "w' = snd (read_targets g l0 tc w2)" using run by (metis snd_conv sum.case(2))
      then show ?thesis using rt_calls[of tc] assms(2) by auto
    qed
    then show ?thesis using only_calls_MessagesFetch[OF oc2] Inr a by auto
  qed
qed


lemma callTool_world: "callTool name args w = (r, w') \<Longrightarrow> \<exists>r0. handler name args w = (r0, w')"
  by (cases "handler name args w") (auto simp: callTool_def split: sum.splits)

text \<open>
  C9. When \<open>ReadMessagesSchema\<close> accepts the arguments the limit is between 1 and 100, and it
  is 50 when the record has no \<open>limit\<close>; when \<open>ReadMultipleChannelsSchema\<close> accepts them
  the limit per channel is between 1 and 50, and it is 10 when the record has no
  \<open>limitPerChannel\<close>. Every fetch of messages that a call of \<open>read-messages\<close> or of
  \<open>read-multiple-channels\<close> adds to the log carries a limit within these bounds, the default
  when the key is absent.
\<close>

theorem limits_within_bounds:
  "(\<forall>s c l. ReadMessagesSchema args = Inr (s, c, l) \<longrightarrow>
      1 \<le> l \<and> l \<le> 100
      \<and> (\<forall>kvs. args = Some (JObj kvs) \<and> map_of kvs ''limit'' = None \<longrightarrow> l = 50))
   \<and> (\<forall>s cs l. ReadMultipleChannelsSchema args = Inr (s, cs, l) \<longrightarrow>
      1 \<le> l \<and> l \<le> 50
      \<and> (\<forall>kvs. args = Some (JObj kvs) \<and> map_of kvs ''limitPerChannel'' = None \<longrightarrow> l = 10))
   \<and> (\<forall>r w' c l. callTool ''read-messages'' args w = (r, w')
        \<and> MessagesFetch c l \<in> set (calls w') \<and> MessagesFetch c l \<notin> set (calls w) \<longrightarrow>
      1 \<le> l \<and> l \<le> 100
      \<and> (\<forall>kvs. args = Some (JObj kvs) \<and> map_of kvs ''limit'' = None \<longrightarrow> l = 50))
   \<and> (\<forall>r w' c l. callTool ''read-multiple-channels'' args w = (r, w')
        \<and> MessagesFetch c l \<in> set (calls w') \<and> MessagesFetch c l \<notin> set (calls w) \<longrightarrow>
      1 \<le> l \<and> l \<le> 50
      \<and> (\<forall>kvs. args = Some (JObj kvs) \<and> map_of kvs ''limitPerChannel'' = None \<longrightarrow> l = 10))"
proof (intro conjI allI impI; (elim conjE)?)
  fix s c l assume "ReadMessagesSchema args = Inr (s, c, l)"
  from ReadMessagesSchema_limit[OF this]
  show "1 \<le> l" "l \<le> 100" by simp_all
next
  fix s c l kvs
  assume "ReadMessagesSchema args = Inr (s, c, l)" "args = Some (JObj kvs)"
    "map_of kvs ''limit'' = None"
  then show "l = 50" using ReadMessagesSchema_limit by blast
next
  fix s cs l assume "ReadMultipleChannelsSchema args = Inr (s, cs, l)"
  from ReadMultipleChannelsSchema_limit[OF this]
  show "1 \<le> l" "l \<le> 50" by simp_all
next
  fix s cs l kvs
  assume "ReadMultipleChannelsSchema args = Inr (s, cs, l)" "args = Some (JObj kvs)"
    "map_of kvs ''limitPerChannel'' = None"
  then show "l = 10" using ReadMultipleChannelsSchema_limit by blast
next
  fix r w' c l
  assume a: "callTool ''read-messages'' args w = (r, w')" "MessagesFetch c l \<in> set (calls w')"
    "MessagesFetch c l \<notin> set (calls w)"
  from callTool_world[OF a(1)] obtain r0 where "read_messages args w = (r0, w')"
    by (auto simp: handler_def)
  from read_messages_fetches[OF this a(2)] a(3)
  obtain s ci where p: "ReadMessagesSchema args = Inr (s, ci, l)" by blast
  from ReadMessagesSchema_limit[OF p]
  show "1 \<le> l" "l \<le> 100" by simp_all
  fix kvs assume "args = Some (JObj kvs)" "map_of kvs ''limit'' = None"
  then show "l = 50" using ReadMessagesSchema_limit[OF p] by blast
next
  fix r w' c l
  assume a: "callTool ''read-multiple-channels'' args w = (r, w')"
    "MessagesFetch c l \<in> set (calls w')" "MessagesFetch c l \<notin> set (calls w)"
  from callTool_world[OF a(1)] obtain r0 where "read_multiple_channels args w = (r0, w')"
    by (auto simp: handler_def)
  from read_multiple_channels_fetches[OF this a(2)] a(3)
  obtain s cs where p: "ReadMultipleChannelsSchema args = Inr (s, cs, l)" by blast
  from ReadMultipleChannelsSchema_limit[OF p]
  show "1 \<le> l" "l \<le> 50" by simp_all
  fix kvs assume "args = Some (JObj kvs)" "map_of kvs ''limitPerChannel'' = None"
  then show "l = 10" using ReadMultipleChannelsSchema_limit[OF p] by blast
qed

theorem limits_within_bounds_witness:
  "ReadMessagesSchema (Some (JObj [(''server'', JStr ''1''), (''channel'', JStr ''10'')])) =
     Inr (Some ''1'', ''10'', 50)
   \<and> ReadMessagesSchema (Some (JObj [(''channel'', JStr ''10''), (''limit'', JNum 100)])) =
     Inr (None, ''10'', 100)
   \<and> thrown (ReadMessagesSchema (Some (JObj [(''channel'', JStr ''10''), (''limit'', JNum 101)]))) =
     Some [\<lparr>issue_path = [''limit''],
            issue_message = ''Number must be less than or equal to 100''\<rparr>]
   \<and> ReadMultipleChannelsSchema (Some (JObj [(''server'', JStr ''1''), (''channels'', JArr [JStr ''13''])])) =
     Inr (Some ''1'', Some [''13''], 10)
   \<and> calls (snd (callTool ''read-messages''
                 (Some (JObj [(''server'', JStr ''1''), (''channel'', JStr ''10'')])) demo)) =
     [GuildsFetch ''1'', ChannelsFetch ''10'', MessagesFetch ''10'' 50]
   \<and> calls (snd (callTool ''read-multiple-channels''
                 (Some (JObj [(''server'', JStr ''1''), (''channels'', JArr [JStr ''13''])])) demo)) =
     [GuildsFetch ''1'', GuildsFetch ''1'', ChannelsFetch ''13'', MessagesFetch ''13'' 10]
   \<and> (1::real) \<le> 50 \<and> (50::real) \<le> 100 \<and> (1::real) \<le> 10 \<and> (10::real) \<le> 50"
proof -
  let ?A = "Some (JObj [(''server'', JStr ''1''), (''channel'', JStr ''10'')])"
  let ?B = "Some (JObj [(''server'', JStr ''1''), (''channels'', JArr [JStr ''13''])])"
  have p1: "ReadMessagesSchema ?A = Inr (Some ''1'', ''10'', 50)"
    and p2: "ReadMessagesSchema (Some (JObj [(''channel'', JStr ''10''), (''limit'', JNum 100)])) =
     Inr (None, ''10'', 100)"
    and p3: "thrown (ReadMessagesSchema (Some (JObj [(''channel'', JStr ''10''), (''limit'', JNum 101)]))) =
     Some [\<lparr>issue_path = [''limit''],
            issue_message = ''Number must be less than or equal to 100''\<rparr>]"
    by (simp_all add: ReadMessagesSchema_def schema_defs digit_char_def)
  have p4: "ReadMultipleChannelsSchema ?B = Inr (Some ''1'', Some [''13''], 10)"
    by (simp add: ReadMultipleChannelsSchema_def schema_defs)
  have c: "calls (snd (callTool ''read-messages'' ?A demo)) =
     [GuildsFetch ''1'', ChannelsFetch ''10'', MessagesFetch ''10'' 50]"
    by (simp add: callTool_def handler_def read_messages_def p1 action_defs resolver_defs
        demo_def demo_entities)
  have d: "calls (snd (callTool ''read-multiple-channels'' ?B demo)) =
     [GuildsFetch ''1'', GuildsFetch ''1'', ChannelsFetch ''13'', MessagesFetch ''13'' 10]"
    by (simp add: handler_defs p4 action_defs resolver_defs demo_def demo_entities)
  have c0: "calls demo = []" by (simp add: demo_def)
  have m: "\<And>kvs. ?A = Some (JObj kvs) \<Longrightarrow> map_of kvs ''limit'' = None"
    and n: "\<And>kvs. ?B = Some (JObj kvs) \<Longrightarrow> map_of kvs ''limitPerChannel'' = None"
    by auto
  note b1 = limits_within_bounds[of ?A demo, THEN conjunct1, rule_format, OF p1]
  note b2 = limits_within_bounds[of ?B demo, THEN conjunct2, THEN conjunct1, rule_format, OF p4]
  have b3: "(1::real) \<le> 50 \<and> (50::real) \<le> 100"
    using limits_within_bounds[of ?A demo, THEN conjunct2, THEN conjunct2, THEN conjunct1,
        rule_format, of "fst (callTool ''read-messages'' ?A demo)"
          "snd (callTool ''read-messages'' ?A demo)" "''10''" 50]
    by (simp add: c c0)
  have b4: "(1::real) \<le> 10 \<and> (10::real) \<le> 50"
    using limits_within_bounds[of ?B demo, THEN conjunct2, THEN conjunct2, THEN conjunct2,
        rule_format, of "fst (callTool ''read-multiple-channels'' ?B demo)"
          "snd (callTool ''read-multiple-channels'' ?B demo)" "''13''" 10]
    by (simp add: d c0)
  show ?thesis using p1 p2 p3 p4 c d b1 b2 b3 b4 by simp
qed

lemma UpdateRoleSchema_absent:
  assumes "UpdateRoleSchema (Some (JObj kvs)) = Inr (si, ri, nn, nc, np, nm)"
    and "map_of kvs ''newName'' = None" and "map_of kvs ''newColor'' = None"
    and "map_of kvs ''newPermissions'' = None" and "map_of kvs ''newMentionable'' = None"
  shows "nn = None \<and> nc = None \<and> np = None \<and> nm = None"
  using assms
  by (auto simp: UpdateRoleSchema_def z_object_def zap_Inr field_def z_optional_def)

subsection \<open>Guards of the role and channel tools\<close>

text \<open>
  C10. When the arguments of \<open>update-role\<close> are a valid record with none of \<open>newName\<close>,
  \<open>newColor\<close>, \<open>newPermissions\<close> and \<open>newMentionable\<close>, and the server and the role
  resolve, the call fails with \<open>No update parameters provided for the role.\<close> and the log
  has no remote mutation that it did not have before: \<open>role.edit\<close> is not called.
\<close>

theorem update_role_without_updates:
  assumes "UpdateRoleSchema (Some (JObj kvs)) = Inr (si, ri, nn, nc, np, nm)"
    and "map_of kvs ''newName'' = None" and "map_of kvs ''newColor'' = None"
    and "map_of kvs ''newPermissions'' = None" and "map_of kvs ''newMentionable'' = None"
    and "findGuild si w = (Inr g, w1)"
    and "findRole ri (Some (guild_id g)) w1 = (Inr r, w2)"
  shows "callTool ''update-role'' (Some (JObj kvs)) w =
           (Inl ''Tool execution failed: No update parameters provided for the role.'', w2)
         \<and> mutation_calls w2 = mutation_calls w"
proof -
  have none: "nn = None" "nc = None" "np = None" "nm = None"
    using UpdateRoleSchema_absent[OF assms(1-5)] by simp_all
  have "update_role (Some (JObj kvs)) w = (Inl (Error msg_no_update), w2)"
    using assms(1,6,7) none
    by (simp add: update_role_def bindA_def parseA_def validated_def throwA_def)
  then have 1: "callTool ''update-role'' (Some (JObj kvs)) w =
      (Inl ''Tool execution failed: No update parameters provided for the role.'', w2)"
    by (simp add: callTool_def handler_def normalize_def msg_no_update_def)
  have "only_lookups w w1" using findGuild_only_lookups[of w si] assms(6) by simp
  moreover have "only_lookups w1 w2"
    using findRole_only_lookups[of w1 ri "Some (guild_id g)"] assms(7) by simp
  ultimately have "only_lookups w w2" by (rule only_lookups_trans)
  then show ?thesis using 1 by (simp add: only_lookups_mutation_calls)
qed


theorem update_role_without_updates_witness:
  "callTool ''update-role'' (Some (JObj [(''server'', JStr ''1''), (''role'', JStr ''moderator'')])) demo =
     (Inl ''Tool execution failed: No update parameters provided for the role.'',
      log_call (GuildsFetch ''1'') (log_call (GuildsFetch ''1'') demo))
   \<and> mutation_calls (log_call (GuildsFetch ''1'') (log_call (GuildsFetch ''1'') demo)) =
       mutation_calls demo"
proof -
  let ?kvs = "[(''server'', JStr ''1''), (''role'', JStr ''moderator'')]"
  have p: "UpdateRoleSchema (Some (JObj ?kvs)) = Inr (Some ''1'', ''moderator'', None, None, None, None)"
    by (simp add: UpdateRoleSchema_def schema_defs)
  have a: "map_of ?kvs ''newName'' = None" "map_of ?kvs ''newColor'' = None"
    "map_of ?kvs ''newPermissions'' = None" "map_of ?kvs ''newMentionable'' = None"
    by simp_all
  have r: "findRole ''moderator'' (Some (guild_id guildA)) (log_call (GuildsFetch ''1'') demo) =
      (Inr r_moderator, log_call (GuildsFetch ''1'') (log_call (GuildsFetch ''1'') demo))"
    by (simp add: resolver_defs log_call_def demo_def demo_entities)
  show ?thesis
    by (rule update_role_without_updates[OF p a demo_findGuild_1 r])
qed

lemma find_Some_ex: "x \<in> set xs \<Longrightarrow> P x \<Longrightarrow> find P xs \<noteq> None"
  by (auto simp: find_None_iff)

text \<open>
  C7. Each guard stands before the mutation. When the arguments are valid and the server,
  the member and the role resolve, \<open>assign-role\<close> of a role the member has and
  \<open>remove-role\<close> of a role the member has not fail with an error that says so; when the
  server resolves, \<open>create-channel\<close> with the name, in any case, of a text channel in the
  cache of the server and \<open>create-role\<close> with the name, in any case, of a role in the cache
  of the server fail with an error that says so. In each case the log has no remote
  mutation that it did not have before.
\<close>

theorem guards_before_mutation:
  "(\<forall>si ui ri g w1 m w2 r w3.
      AssignRoleSchema args = Inr (si, ui, ri) \<and> findGuild si w = (Inr g, w1)
      \<and> findMember ui (Some (guild_id g)) w1 = (Inr m, w2)
      \<and> findRole ri (Some (guild_id g)) w2 = (Inr r, w3) \<and> has_role m r \<longrightarrow>
      callTool ''assign-role'' args w =
        (Inl (''Tool execution failed: User '' @ user_tag m @ '' already has the role ''
                @ quoted (role_name r) @ ''.''), w3)
      \<and> mutation_calls w3 = mutation_calls w)
   \<and> (\<forall>si ui ri g w1 m w2 r w3.
      RemoveRoleSchema args = Inr (si, ui, ri) \<and> findGuild si w = (Inr g, w1)
      \<and> findMember ui (Some (guild_id g)) w1 = (Inr m, w2)
      \<and> findRole ri (Some (guild_id g)) w2 = (Inr r, w3) \<and> \<not> has_role m r \<longrightarrow>
      callTool ''remove-role'' args w =
        (Inl (''Tool execution failed: User '' @ user_tag m @ '' does not have the role ''
                @ quoted (role_name r) @ ''.''), w3)
      \<and> mutation_calls w3 = mutation_calls w)
   \<and> (\<forall>si n g w1 c.
      CreateChannelSchema args = Inr (si, n) \<and> findGuild si w = (Inr g, w1)
      \<and> c \<in> set (channels_cache w (guild_id g)) \<and> is_TextChannel c
      \<and> toLowerCase (channel_name c) = toLowerCase n \<longrightarrow>
      callTool ''create-channel'' args w =
        (Inl (''Tool execution failed: A text channel named '' @ quoted n
                @ '' already exists in server '' @ quoted (guild_name g) @ ''.''), w1)
      \<and> mutation_calls w1 = mutation_calls w)
   \<and> (\<forall>si n co ps me g w1 r.
      CreateRoleSchema args = Inr (si, n, co, ps, me) \<and> findGuild si w = (Inr g, w1)
      \<and> r \<in> set (roles_cache w (guild_id g))
      \<and> toLowerCase (role_name r) = toLowerCase n \<longrightarrow>
      callTool ''create-role'' args w =
        (Inl (''Tool execution failed: A role named '' @ quoted n
                @ '' already exists in server '' @ quoted (guild_name g) @ ''.''), w1)
      \<and> mutation_calls w1 = mutation_calls w)"
proof (intro conjI allI impI; elim conjE)
  fix si ui ri g w1 m w2 r w3
  assume a: "AssignRoleSchema args = Inr (si, ui, ri)" "findGuild si w = (Inr g, w1)"
    "findMember ui (Some (guild_id g)) w1 = (Inr m, w2)"
    "findRole ri (Some (guild_id g)) w2 = (Inr r, w3)" "has_role m r"
  have "assign_role args w = (Inl (Error (msg_already_has_role m r)), w3)"
    using a by (simp add: assign_role_def bindA_def parseA_def throwA_def)
  then show "callTool ''assign-role'' args w =
        (Inl (''Tool execution failed: User '' @ user_tag m @ '' already has the role ''
                @ quoted (role_name r) @ ''.''), w3)"
    by (simp add: callTool_def handler_def normalize_def msg_already_has_role_def)
  have "only_lookups w w1" using findGuild_only_lookups[of w si] a(2) by simp
  moreover have "only_lookups w1 w2"
    using findMember_only_lookups[of w1 ui "Some (guild_id g)"] a(3) by simp
  moreover have "only_lookups w2 w3"
    using findRole_only_lookups[of w2 ri "Some (guild_id g)"] a(4) by simp
  ultimately have "only_lookups w w3" by (blast intro: only_lookups_trans)
  then show "mutation_calls w3 = mutation_calls w" by (rule only_lookups_mutation_calls)
next
  fix si ui ri g w1 m w2 r w3
  assume a: "RemoveRoleSchema args = Inr (si, ui, ri)" "findGuild si w = (Inr g, w1)"
    "findMember ui (Some (guild_id g)) w1 = (Inr m, w2)"
    "findRole ri (Some (guild_id g)) w2 = (Inr r, w3)" "\<not> has_role m r"
  have "remove_role args w = (Inl (Error (msg_lacks_role m r)), w3)"
    using a by (simp add: remove_role_def bindA_def parseA_def throwA_def)
  then show "callTool ''remove-role'' args w =
        (Inl (''Tool execution failed: User '' @ user_tag m @ '' does not have the role ''
                @ quoted (role_name r) @ ''.''), w3)"
    by (simp add: callTool_def handler_def normalize_def msg_lacks_role_def)
  have "only_lookups w w1" using findGuild_only_lookups[of w si] a(2) by simp
  moreover have "only_lookups w1 w2"
    using findMember_only_lookups[of w1 ui "Some (guild_id g)"] a(3) by simp
  moreover have "only_lookups w2 w3"
    using findRole_only_lookups[of w2 ri "Some (guild_id g)"] a(4) by simp
  ultimately have "only_lookups w w3" by (blast intro: only_lookups_trans)
  then show "mutation_calls w3 = mutation_calls w" by (rule only_lookups_mutation_calls)
next
  fix si n g w1 c
  assume a: "CreateChannelSchema args = Inr (si, n)" "findGuild si w = (Inr g, w1)"
    "c \<in> set (channels_cache w (guild_id g))" "is_TextChannel c"
    "toLowerCase (channel_name c) = toLowerCase n"
  have oc: "only_calls w w1" using findGuild_only_calls[of w si] a(2) by simp
  have "find (\<lambda>c. toLowerCase (channel_name c) = toLowerCase n \<and> channel_kind c = GuildText)
          (channels_cache w1 (guild_id g)) \<noteq> None"
    using a(3-5) only_calls_fields(2)[OF oc]
    by (intro find_Some_ex[of c]) (simp_all add: is_TextChannel_def)
  then have "create_channel args w = (Inl (Error (msg_channel_exists n g)), w1)"
    using a(1,2) by (simp add: create_channel_def bindA_def parseA_def throwA_def readA_def)
  then show "callTool ''create-channel'' args w =
        (Inl (''Tool execution failed: A text channel named '' @ quoted n
                @ '' already exists in server '' @ quoted (guild_name g) @ ''.''), w1)"
    by (simp add: callTool_def handler_def normalize_def msg_channel_exists_def)
  show "mutation_calls w1 = mutation_calls w"
    by (rule only_lookups_mutation_calls[OF only_calls_lookups[OF oc]])
next
  fix si n co ps me g w1 r
  assume a: "CreateRoleSchema args = Inr (si, n, co, ps, me)" "findGuild si w = (Inr g, w1)"
    "r \<in> set (roles_cache w (guild_id g))" "toLowerCase (role_name r) = toLowerCase n"
  have oc: "only_calls w w1" using findGuild_only_calls[of w si] a(2) by simp
  have "role_by_name n (roles_cache w1 (guild_id g)) \<noteq> None"
    unfolding role_by_name_def
    using a(3,4) only_calls_fields(3)[OF oc]
    by (intro find_Some_ex[of r]) simp_all
  then have "create_role args w = (Inl (Error (msg_role_exists n g)), w1)"
    using a(1,2) by (simp add: create_role_def bindA_def parseA_def throwA_def readA_def)
  then show "callTool ''create-role'' args w =
        (Inl (''Tool execution failed: A role named '' @ quoted n
                @ '' already exists in server '' @ quoted (guild_name g) @ ''.''), w1)"
    by (simp add: callTool_def handler_def normalize_def msg_role_exists_def)
  show "mutation_calls w1 = mutation_calls w"
    by (rule only_lookups_mutation_calls[OF only_calls_lookups[OF oc]])
qed

lemma pair_fst_snd: "fst p = a \<Longrightarrow> p = (a, snd p)"
  by (cases p) simp

theorem guards_before_mutation_witness:
  "fst (callTool ''assign-role''
          (Some (JObj [(''server'', JStr ''1''), (''user'', JStr ''alice''), (''role'', JStr ''moderator'')]))
          demo) =
     Inl (''Tool execution failed: User alice#0001 already has the role '' @ quoted ''Moderator'' @ ''.'')
   \<and> mutation_calls (snd (callTool ''assign-role''
          (Some (JObj [(''server'', JStr ''1''), (''user'', JStr ''alice''), (''role'', JStr ''moderator'')]))
          demo)) = []
   \<and> fst (callTool ''remove-role''
          (Some (JObj [(''server'', JStr ''1''), (''user'', JStr ''bob#0002''), (''role'', JStr ''30'')]))
          demo) =
     Inl (''Tool execution failed: User bob#0002 does not have the role '' @ quoted ''Moderator'' @ ''.'')
   \<and> mutation_calls (snd (callTool ''remove-role''
          (Some (JObj [(''server'', JStr ''1''), (''user'', JStr ''bob#0002''), (''role'', JStr ''30'')]))
          demo)) = []
   \<and> callTool ''create-channel''
          (Some (JObj [(''server'', JStr ''1''), (''channelName'', JStr ''GENERAL'')])) demo =
     (Inl (''Tool execution failed: A text channel named '' @ quoted ''GENERAL''
            @ '' already exists in server '' @ quoted ''Alpha'' @ ''.''),
      log_call (GuildsFetch ''1'') demo)
   \<and> callTool ''create-role''
          (Some (JObj [(''server'', JStr ''1''), (''roleName'', JStr ''moderator'')])) demo =
     (Inl (''Tool execution failed: A role named '' @ quoted ''moderator''
            @ '' already exists in server '' @ quoted ''Alpha'' @ ''.''),
      log_call (GuildsFetch ''1'') demo)
   \<and> mutation_calls (log_call (GuildsFetch ''1'') demo) = []"
proof -
  let ?A = "Some (JObj [(''server'', JStr ''1''), (''user'', JStr ''alice''), (''role'', JStr ''moderator'')])"
  let ?R = "Some (JObj [(''server'', JStr ''1''), (''user'', JStr ''bob#0002''), (''role'', JStr ''30'')])"
  let ?C = "Some (JObj [(''server'', JStr ''1''), (''channelName'', JStr ''GENERAL'')])"
  let ?D = "Some (JObj [(''server'', JStr ''1''), (''roleName'', JStr ''moderator'')])"
  let ?w1 = "log_call (GuildsFetch ''1'') demo"
  have gid: "guild_id guildA = ''1''" and gname: "guild_name guildA = ''Alpha''"
    by (simp_all add: guildA_def)
  have m0: "mutation_calls demo = []" by (simp add: mutation_calls_def demo_def)
  have pa: "AssignRoleSchema ?A = Inr (Some ''1'', ''alice'', ''moderator'')"
    and pr: "RemoveRoleSchema ?R = Inr (Some ''1'', ''bob#0002'', ''30'')"
    and pc: "CreateChannelSchema ?C = Inr (Some ''1'', ''GENERAL'')"
    and pd: "CreateRoleSchema ?D = Inr (Some ''1'', ''moderator'', None, None, Some False)"
    by (simp_all add: AssignRoleSchema_def RemoveRoleSchema_def CreateChannelSchema_def
        CreateRoleSchema_def schema_defs)
  have ma: "fst (findMember ''alice'' (Some (guild_id guildA)) ?w1) = Inr m_alice"
    and mb: "fst (findMember ''bob#0002'' (Some (guild_id guildA)) ?w1) = Inr m_bob"
    by (simp_all add: resolver_defs log_call_def demo_def demo_entities)
  let ?wa = "snd (findMember ''alice'' (Some (guild_id guildA)) ?w1)"
  let ?wb = "snd (findMember ''bob#0002'' (Some (guild_id guildA)) ?w1)"
  have ra: "fst (findRole ''moderator'' (Some (guild_id guildA)) ?wa) = Inr r_moderator"
    and rb: "fst (findRole ''30'' (Some (guild_id guildA)) ?wb) = Inr r_moderator"
    by (simp_all add: resolver_defs log_call_def demo_def demo_entities)
  have ha: "has_role m_alice r_moderator" and hb: "\<not> has_role m_bob r_moderator"
    by (simp_all add: has_role_def m_alice_def m_bob_def r_moderator_def)
  have ca: "ch_general \<in> set (channels_cache demo (guild_id guildA))"
    "is_TextChannel ch_general" "toLowerCase (channel_name ch_general) = toLowerCase ''GENERAL''"
    and cr: "r_moderator \<in> set (roles_cache demo (guild_id guildA))"
    "toLowerCase (role_name r_moderator) = toLowerCase ''moderator''"
    by (simp_all add: demo_def guildA_def ch_general_def r_moderator_def is_TextChannel_def
        toLowerCase_def lower_char_def)
  have 1: "callTool ''assign-role'' ?A demo =
      (Inl (''Tool execution failed: User '' @ user_tag m_alice @ '' already has the role ''
              @ quoted (role_name r_moderator) @ ''.''),
       snd (findRole ''moderator'' (Some (guild_id guildA)) ?wa))
     \<and> mutation_calls (snd (findRole ''moderator'' (Some (guild_id guildA)) ?wa)) = mutation_calls demo"
    by (rule guards_before_mutation[of ?A demo, THEN conjunct1, rule_format,
          OF conjI[OF pa conjI[OF demo_findGuild_1 conjI[OF pair_fst_snd[OF ma]
            conjI[OF pair_fst_snd[OF ra] ha]]]]])
  have 2: "callTool ''remove-role'' ?R demo =
      (Inl (''Tool execution failed: User '' @ user_tag m_bob @ '' does not have the role ''
              @ quoted (role_name r_moderator) @ ''.''),
       snd (findRole ''30'' (Some (guild_id guildA)) ?wb))
     \<and> mutation_calls (snd (findRole ''30'' (Some (guild_id guildA)) ?wb)) = mutation_calls demo"
    by (rule guards_before_mutation[of ?R demo, THEN conjunct2, THEN conjunct1, rule_format,
          OF conjI[OF pr conjI[OF demo_findGuild_1 conjI[OF pair_fst_snd[OF mb]
            conjI[OF pair_fst_snd[OF rb] hb]]]]])
  have 3: "callTool ''create-channel'' ?C demo =
      (Inl (''Tool execution failed: A text channel named '' @ quoted ''GENERAL''
              @ '' already exists in server '' @ quoted (guild_name guildA) @ ''.''), ?w1)
     \<and> mutation_calls ?w1 = mutation_calls demo"
    by (rule guards_before_mutation[of ?C demo, THEN conjunct2, THEN conjunct2, THEN conjunct1,
          rule_format,
          OF conjI[OF pc conjI[OF demo_findGuild_1 conjI[OF ca(1) conjI[OF ca(2) ca(3)]]]]])
  have 4: "callTool ''create-role'' ?D demo =
      (Inl (''Tool execution failed: A role named '' @ quoted ''moderator''
              @ '' already exists in server '' @ quoted (guild_name guildA) @ ''.''), ?w1)
     \<and> mutation_calls ?w1 = mutation_calls demo"
    by (rule guards_before_mutation[of ?D demo, THEN conjunct2, THEN conjunct2, THEN conjunct2,
          rule_format,
          OF conjI[OF pd conjI[OF demo_findGuild_1 conjI[OF cr(1) cr(2)]]]])
  show ?thesis
    using 1 2 3 4 by (simp add: m0 gname m_alice_def m_bob_def r_moderator_def)
qed

subsection \<open>read-multiple-channels\<close>

lemma findGuild_fst_cong:
  "guilds_cache w' = guilds_cache w \<Longrightarrow> guilds_fetch_result w' = guilds_fetch_result w \<Longrightarrow>
   fst (findGuild gi w') = fst (findGuild gi w)"
  by (simp add: findGuild_def findGuild_omitted_def findGuild_by_name_def Let_def log_call_def
      split: option.splits list.splits sum.splits)

lemma findChannel_fst_cong:
  assumes "guilds_cache w' = guilds_cache w" "guilds_fetch_result w' = guilds_fetch_result w"
    "channels_cache w' = channels_cache w" "channels_fetch_result w' = channels_fetch_result w"
  shows "fst (findChannel ci gi w') = fst (findChannel ci gi w)"
proof -
  obtain r w1 where 1: "findGuild gi w = (r, w1)" by (cases "findGuild gi w") auto
  obtain r' w1' where 2: "findGuild gi w' = (r', w1')" by (cases "findGuild gi w'") auto
  have r: "r' = r" using findGuild_fst_cong[OF assms(1,2), of gi] 1 2 by simp
  have f: "channels_cache w1 = channels_cache w" "channels_fetch_result w1 = channels_fetch_result w"
    using only_calls_fields[OF findGuild_only_calls[of w gi]] 1 by simp_all
  have f': "channels_cache w1' = channels_cache w'" "channels_fetch_result w1' = channels_fetch_result w'"
    using only_calls_fields[OF findGuild_only_calls[of w' gi]] 2 by simp_all
  show ?thesis
    using 1 2 r f f' assms(3,4)
    by (simp add: findChannel_def findChannel_by_name_def Let_def log_call_def
        split: sum.splits option.splits)
qed

lemma findChannel_fst_only_calls:
  "only_calls w w' \<Longrightarrow> fst (findChannel ci gi w') = fst (findChannel ci gi w)"
  by (rule findChannel_fst_cong) (simp_all add: only_calls_fields)

lemma findGuild_error: "fst (findGuild gi w) = Inl e \<Longrightarrow> \<exists>m. e = Error m"
  by (auto simp: findGuild_def findGuild_omitted_def findGuild_by_name_def Let_def
      split: option.splits list.splits sum.splits if_splits)

lemma findChannel_error: "fst (findChannel ci gi w) = Inl e \<Longrightarrow> \<exists>m. e = Error m"
proof -
  obtain r w1 where 1: "findGuild gi w = (r, w1)" by (cases "findGuild gi w") auto
  assume "fst (findChannel ci gi w) = Inl e"
  then show ?thesis
    using 1 findGuild_error[of gi w e]
    by (auto simp: findChannel_def findChannel_by_name_def Let_def
        split: sum.splits option.splits if_splits)
qed

lemma resolve_all_Inr:
  "fst (resolve_all ids gid w) = Inr cs \<longleftrightarrow>
   map (\<lambda>ci. fst (findChannel ci (Some gid) w)) ids = map Inr cs"
proof (induction ids arbitrary: w cs)
  case Nil
  show ?case by auto
next
  case (Cons ci ids)
  obtain r w1 where 1: "findChannel ci (Some gid) w = (r, w1)"
    by (cases "findChannel ci (Some gid) w") auto
  obtain rs w2 where 2: "resolve_all ids gid w1 = (rs, w2)"
    by (cases "resolve_all ids gid w1") auto
  have oc: "only_calls w w1" using findChannel_only_calls[of w ci "Some gid"] 1 by simp
  have same: "map (\<lambda>ci. fst (findChannel ci (Some gid) w1)) ids =
      map (\<lambda>ci. fst (findChannel ci (Some gid) w)) ids"
    by (simp add: findChannel_fst_only_calls[OF oc])
  have ih: "rs = Inr cs' \<longleftrightarrow> map (\<lambda>ci. fst (findChannel ci (Some gid) w)) ids = map Inr cs'" for cs'
    using Cons.IH[of w1 cs'] 2 same by simp
  show ?case
  proof (cases r)
    case (Inl e)
    then show ?thesis using 1 2 by (cases cs) auto
  next
    case (Inr c)
    show ?thesis
    proof (cases rs)
      case (Inl e)
      then have "\<And>cs'. map (\<lambda>ci. fst (findChannel ci (Some gid) w)) ids \<noteq> map Inr cs'"
        using ih by simp
      then show ?thesis using 1 2 Inr Inl by (cases cs) auto
    next
      case rs: (Inr cs0)
      then have "map (\<lambda>ci. fst (findChannel ci (Some gid) w)) ids = map Inr cs0" using ih by simp
      then show ?thesis using 1 2 Inr rs by (cases cs) (auto simp: map_eq_conv inj_map_eq_map)
    qed
  qed
qed

lemma resolve_all_Inl:
  "(\<exists>e. fst (resolve_all ids gid w) = Inl e) \<longleftrightarrow>
   (\<exists>ci\<in>set ids. \<exists>e. fst (findChannel ci (Some gid) w) = Inl e)"
proof (induction ids arbitrary: w)
  case Nil
  show ?case by simp
next
  case (Cons ci ids)
  obtain r w1 where 1: "findChannel ci (Some gid) w = (r, w1)"
    by (cases "findChannel ci (Some gid) w") auto
  obtain rs w2 where 2: "resolve_all ids gid w1 = (rs, w2)"
    by (cases "resolve_all ids gid w1") auto
  have oc: "only_calls w w1" using findChannel_only_calls[of w ci "Some gid"] 1 by simp
  have ih: "(\<exists>e. rs = Inl e) \<longleftrightarrow> (\<exists>ci\<in>set ids. \<exists>e. fst (findChannel ci (Some gid) w) = Inl e)"
    using Cons.IH[of w1] 2 by (simp add: findChannel_fst_only_calls[OF oc])
  show ?case
    using 1 2 ih by (cases r; cases rs) auto
qed

lemma resolve_all_error: "fst (resolve_all ids gid w) = Inl e \<Longrightarrow> \<exists>m. e = Error m"
proof (induction ids arbitrary: w)
  case Nil
  then show ?case by simp
next
  case (Cons ci ids)
  obtain r w1 where 1: "findChannel ci (Some gid) w = (r, w1)"
    by (cases "findChannel ci (Some gid) w") auto
  obtain rs w2 where 2: "resolve_all ids gid w1 = (rs, w2)"
    by (cases "resolve_all ids gid w1") auto
  show ?case
    using Cons.prems 1 2 Cons.IH[of w1] findChannel_error[of ci "Some gid" w e]
    by (cases r; cases rs) auto
qed

lemma resolve_all_Inl_which:
  "fst (resolve_all ids gid w) = Inl e \<Longrightarrow>
   \<exists>ci\<in>set ids. fst (findChannel ci (Some gid) w) = Inl e"
proof (induction ids arbitrary: w)
  case Nil
  then show ?case by simp
next
  case (Cons ci ids)
  obtain r w1 where 1: "findChannel ci (Some gid) w = (r, w1)"
    by (cases "findChannel ci (Some gid) w") auto
  obtain rs w2 where 2: "resolve_all ids gid w1 = (rs, w2)"
    by (cases "resolve_all ids gid w1") auto
  have oc: "only_calls w w1" using findChannel_only_calls[of w ci "Some gid"] 1 by simp
  have ih: "rs = Inl e \<Longrightarrow> \<exists>ci\<in>set ids. fst (findChannel ci (Some gid) w) = Inl e"
    using Cons.IH[of w1] 2 by (simp add: findChannel_fst_only_calls[OF oc])
  show ?case
    using Cons.prems 1 2 ih by (cases r; cases rs) auto
qed

lemma channel_entries_log: "channel_entries (log_call c w) l ch = channel_entries w l ch"
  by (simp add: channel_entries_def log_call_def)

lemma gather_entries: "fst (gather l cs w) = concat (map (channel_entries w l) cs)"
proof (induction cs arbitrary: w)
  case Nil
  show ?case by simp
next
  case (Cons c cs)
  have "channel_entries (log_call (MessagesFetch (channel_id c) l) w) l = channel_entries w l"
    by (rule ext) (rule channel_entries_log)
  then show ?case using Cons.IH[of "log_call (MessagesFetch (channel_id c) l) w"]
    by (simp add: case_prod_unfold)
qed

lemma mset_sort_insert: "mset (sort_insert cmp x rs) = add_mset x (mset rs)"
  by (induction rs) auto

lemma mset_js_sort: "mset (js_sort cmp xs) = mset xs"
proof -
  have "mset (foldl (\<lambda>rs x. sort_insert cmp x rs) acc xs) = mset acc + mset xs" for acc
    by (induction xs arbitrary: acc) (auto simp: mset_sort_insert)
  then show ?thesis by (simp add: js_sort_def)
qed

lemma set_js_sort: "set (js_sort cmp xs) = set xs"
  using mset_js_sort[of cmp xs] by (metis set_mset_mset)


lemma channel_entries_only_calls:
  "only_calls w w' \<Longrightarrow> channel_entries w' l = channel_entries w l"
  by (rule ext) (simp add: channel_entries_def only_calls_fields)

text \<open>
  C1, as the code has it. For \<open>read-multiple-channels\<close> with a list of channels, valid
  arguments and a resolved server: when one of the listed channels does not resolve, the
  whole call fails with \<open>Tool execution failed: \<close> followed by the message that
  \<open>findChannel\<close> throws for a listed channel that does not resolve; when all of them
  resolve, the call succeeds, and its items are, in some order, those of every resolved
  channel: the formatted messages of each channel whose fetch resolved and one error entry
  for each channel whose fetch was rejected.
\<close>

theorem read_multiple_channels_listed:
  assumes "ReadMultipleChannelsSchema args = Inr (si, Some ids, l)"
    and "ids \<noteq> []"
    and "findGuild si w = (Inr g, w1)"
  shows "((\<exists>ci\<in>set ids. \<exists>e. fst (findChannel ci (Some (guild_id g)) w) = Inl e) \<longrightarrow>
            (\<exists>ci\<in>set ids. \<exists>m.
               fst (findChannel ci (Some (guild_id g)) w) = Inl (Error m)
               \<and> fst (callTool ''read-multiple-channels'' args w) =
                     Inl (''Tool execution failed: '' @ m)))
         \<and> (\<forall>cs. map (\<lambda>ci. fst (findChannel ci (Some (guild_id g)) w)) ids = map Inr cs \<longrightarrow>
              (\<exists>es. fst (callTool ''read-multiple-channels'' args w) =
                       Inr (TextJson (''Fetched messages from '' @ show_nat (length cs)
                              @ '' channel(s) in '' @ quoted (guild_name g) @ '':'' @ nl)
                            (Entries es))
                 \<and> mset es = mset (concat (map (channel_entries w l) cs))
                 \<and> (\<forall>c\<in>set cs.
                       (\<forall>m. messages_fetch_result w (channel_id c) l = Inl m \<longrightarrow>
                            error_entry c m \<in> set es)
                       \<and> (\<forall>ms. messages_fetch_result w (channel_id c) l = Inr ms \<longrightarrow>
                            set (map (format_message c) ms) \<subseteq> set es))))"
proof -
  obtain rt w2 where rt: "resolve_all ids (guild_id g) w1 = (rt, w2)"
    by (cases "resolve_all ids (guild_id g) w1") auto
  have oc1: "only_calls w w1" using findGuild_only_calls[of w si] assms(3) by simp
  have oc2: "only_calls w1 w2" using resolve_all_only_calls[of w1 ids "guild_id g"] rt by simp
  have oc: "only_calls w w2" by (rule only_calls_trans[OF oc1 oc2])
  have same: "fst (findChannel ci (Some (guild_id g)) w1) = fst (findChannel ci (Some (guild_id g)) w)"
    for ci by (rule findChannel_fst_only_calls[OF oc1])
  have run: "read_multiple_channels args w =
      (case rt of Inl e \<Rightarrow> (Inl e, w2) | Inr cs \<Rightarrow> read_targets g l cs w2)"
    using assms rt
    by (simp add: read_multiple_channels_def bindA_def parseA_def target_channels_def)
  have part1: "\<exists>ci\<in>set ids. \<exists>m.
               fst (findChannel ci (Some (guild_id g)) w) = Inl (Error m)
               \<and> fst (callTool ''read-multiple-channels'' args w) =
                     Inl (''Tool execution failed: '' @ m)"
    if "\<exists>ci\<in>set ids. \<exists>e. fst (findChannel ci (Some (guild_id g)) w) = Inl e"
  proof -
    from that have "\<exists>e. fst (resolve_all ids (guild_id g) w1) = Inl e"
      by (simp add: resolve_all_Inl same)
    then obtain e where e: "rt = Inl e" using rt by auto
    then obtain ci where ci: "ci \<in> set ids"
      "fst (findChannel ci (Some (guild_id g)) w1) = Inl e"
      using resolve_all_Inl_which[of ids "guild_id g" w1 e] rt by auto
    obtain m where m: "e = Error m" using findChannel_error[OF ci(2)] by auto
    have "fst (callTool ''read-multiple-channels'' args w) =
        Inl (''Tool execution failed: '' @ m)"
      using run e m by (simp add: callTool_def handler_def normalize_def)
    moreover have "fst (findChannel ci (Some (guild_id g)) w) = Inl (Error m)"
      using ci(2) m same by simp
    ultimately show ?thesis using ci(1) by blast
  qed
  have part2: "\<exists>es. fst (callTool ''read-multiple-channels'' args w) =
                       Inr (TextJson (''Fetched messages from '' @ show_nat (length cs)
                              @ '' channel(s) in '' @ quoted (guild_name g) @ '':'' @ nl)
                            (Entries es))
                 \<and> mset es = mset (concat (map (channel_entries w l) cs))
                 \<and> (\<forall>c\<in>set cs.
                       (\<forall>m. messages_fetch_result w (channel_id c) l = Inl m \<longrightarrow>
                            error_entry c m \<in> set es)
                       \<and> (\<forall>ms. messages_fetch_result w (channel_id c) l = Inr ms \<longrightarrow>
                            set (map (format_message c) ms) \<subseteq> set es))"
    if m: "map (\<lambda>ci. fst (findChannel ci (Some (guild_id g)) w)) ids = map Inr cs" for cs
  proof -
    have "fst (resolve_all ids (guild_id g) w1) = Inr cs"
      using m by (simp add: resolve_all_Inr same)
    then have r: "rt = Inr cs" using rt by simp
    have "length cs = length ids" using m by (metis length_map)
    then have ne: "cs \<noteq> []" using assms(2) by auto
    define es where "es = js_sort compare_entries (concat (map (channel_entries w l) cs))"
    have "fst (read_targets g l cs w2) =
        Inr (TextJson (''Fetched messages from '' @ show_nat (length cs)
                 @ '' channel(s) in '' @ quoted (guild_name g) @ '':'' @ nl) (Entries es))"
      using ne gather_entries[of l cs w2]
      by (simp add: read_targets_def case_prod_unfold es_def channel_entries_only_calls[OF oc])
    then have 1: "fst (callTool ''read-multiple-channels'' args w) =
        Inr (TextJson (''Fetched messages from '' @ show_nat (length cs)
                 @ '' channel(s) in '' @ quoted (guild_name g) @ '':'' @ nl) (Entries es))"
      using run r
      by (cases "read_targets g l cs w2") (simp add: callTool_def handler_def)
    have 2: "mset es = mset (concat (map (channel_entries w l) cs))"
      by (simp add: es_def mset_js_sort)
    have 3: "set es = (\<Union>c\<in>set cs. set (channel_entries w l c))"
      by (simp add: es_def set_js_sort)
    have 4: "error_entry c m \<in> set es"
      if "c \<in> set cs" "messages_fetch_result w (channel_id c) l = Inl m" for c m
      using that 3 by (auto simp: channel_entries_def intro!: bexI[of _ c])
    have 5: "set (map (format_message c) ms) \<subseteq> set es"
      if "c \<in> set cs" "messages_fetch_result w (channel_id c) l = Inr ms" for c ms
      using that 3 by (auto simp: channel_entries_def intro!: bexI[of _ c])
    show ?thesis using 1 2 4 5 by blast
  qed
  show ?thesis using part1 part2 by blast
qed


text \<open>
  C1, as the claim has it, fails: \<open>10\<close> resolves to \<open>general\<close>, whose message can be read,
  but \<open>nope\<close> does not resolve, and the response is the error of that resolution, with no
  item of \<open>general\<close>.
\<close>

theorem read_multiple_channels_resolution_aborts:
  "fst (findChannel ''10'' (Some ''1'') demo) = Inr ch_general
   \<and> messages_fetch_result demo ''10'' 10 = Inr [msg_old]
   \<and> fst (callTool ''read-multiple-channels''
            (Some (JObj [(''server'', JStr ''1''), (''channels'', JArr [JStr ''10'', JStr ''nope''])]))
            demo) =
       Inl (''Tool execution failed: Channel '' @ quoted ''nope'' @ '' not found in server ''
              @ quoted ''Alpha'' @ ''. Available channels: '' @ quoted ''#general'' @ '', ''
              @ quoted ''#news'' @ '', '' @ quoted ''#dev'' @ '', '' @ quoted ''#Dev'')"
proof -
  have p: "ReadMultipleChannelsSchema
      (Some (JObj [(''server'', JStr ''1''), (''channels'', JArr [JStr ''10'', JStr ''nope''])])) =
      Inr (Some ''1'', Some [''10'', ''nope''], 10)"
    by (simp add: ReadMultipleChannelsSchema_def schema_defs)
  have 1: "fst (findChannel ''10'' (Some ''1'') demo) = Inr ch_general"
    by (simp add: resolver_defs log_call_def demo_def demo_entities)
  have 2: "messages_fetch_result demo ''10'' 10 = Inr [msg_old]"
    by (simp add: demo_def)
  have 3: "fst (callTool ''read-multiple-channels''
            (Some (JObj [(''server'', JStr ''1''), (''channels'', JArr [JStr ''10'', JStr ''nope''])]))
            demo) =
       Inl (''Tool execution failed: Channel '' @ quoted ''nope'' @ '' not found in server ''
              @ quoted ''Alpha'' @ ''. Available channels: '' @ quoted ''#general'' @ '', ''
              @ quoted ''#news'' @ '', '' @ quoted ''#dev'' @ '', '' @ quoted ''#Dev'')"
    by (simp add: handler_defs p action_defs resolver_defs msg_channel_not_found_def
        demo_def demo_entities)
  show ?thesis using 1 2 3 by simp
qed

theorem read_multiple_channels_listed_witness:
  "\<exists>es. fst (callTool ''read-multiple-channels''
            (Some (JObj [(''server'', JStr ''1''),
                         (''channels'', JArr [JStr ''10'', JStr ''11'', JStr ''13''])]))
            demo) =
       Inr (TextJson (''Fetched messages from 3 channel(s) in '' @ quoted ''Alpha'' @ '':'' @ nl)
              (Entries es))
     \<and> length es = 3
     \<and> format_message ch_general msg_old \<in> set es
     \<and> error_entry ch_news ''Missing Access'' \<in> set es
     \<and> format_message ch_dev msg_new \<in> set es
     \<and> fst (callTool ''read-multiple-channels''
              (Some (JObj [(''server'', JStr ''1''), (''channels'', JArr [JStr ''nope''])]))
              demo) =
         Inl (''Tool execution failed: Channel '' @ quoted ''nope'' @ '' not found in server ''
                @ quoted ''Alpha'' @ ''. Available channels: '' @ quoted ''#general'' @ '', ''
                @ quoted ''#news'' @ '', '' @ quoted ''#dev'' @ '', '' @ quoted ''#Dev'')"
proof -
  let ?A = "Some (JObj [(''server'', JStr ''1''),
                         (''channels'', JArr [JStr ''10'', JStr ''11'', JStr ''13''])])"
  let ?N = "Some (JObj [(''server'', JStr ''1''), (''channels'', JArr [JStr ''nope''])])"
  have pn: "ReadMultipleChannelsSchema ?N = Inr (Some ''1'', Some [''nope''], 10)"
    by (simp add: ReadMultipleChannelsSchema_def schema_defs)
  have fails: "\<exists>ci\<in>set [''nope'']. \<exists>e. fst (findChannel ci (Some (guild_id guildA)) demo) = Inl e"
    by (simp add: resolver_defs log_call_def demo_def demo_entities)
  have nn: "[''nope''] \<noteq> []" by simp
  have fn: "fst (findChannel ''nope'' (Some (guild_id guildA)) demo) =
      Inl (Error (''Channel '' @ quoted ''nope'' @ '' not found in server ''
                @ quoted ''Alpha'' @ ''. Available channels: '' @ quoted ''#general'' @ '', ''
                @ quoted ''#news'' @ '', '' @ quoted ''#dev'' @ '', '' @ quoted ''#Dev''))"
    by (simp add: resolver_defs msg_channel_not_found_def log_call_def demo_def demo_entities)
  have aborted: "fst (callTool ''read-multiple-channels'' ?N demo) =
         Inl (''Tool execution failed: Channel '' @ quoted ''nope'' @ '' not found in server ''
                @ quoted ''Alpha'' @ ''. Available channels: '' @ quoted ''#general'' @ '', ''
                @ quoted ''#news'' @ '', '' @ quoted ''#dev'' @ '', '' @ quoted ''#Dev'')"
    using read_multiple_channels_listed[OF pn nn demo_findGuild_1, THEN conjunct1,
          rule_format, OF fails] fn
    by auto
  have p: "ReadMultipleChannelsSchema ?A = Inr (Some ''1'', Some [''10'', ''11'', ''13''], 10)"
    by (simp add: ReadMultipleChannelsSchema_def schema_defs)
  have ne: "[''10'', ''11'', ''13''] \<noteq> []" by simp
  have m: "map (\<lambda>ci. fst (findChannel ci (Some (guild_id guildA)) demo)) [''10'', ''11'', ''13''] =
      map Inr [ch_general, ch_news, ch_dev]"
    by (simp add: resolver_defs log_call_def demo_def demo_entities)
  have f: "messages_fetch_result demo (channel_id ch_general) 10 = Inr [msg_old]"
    "messages_fetch_result demo (channel_id ch_news) 10 = Inl ''Missing Access''"
    "messages_fetch_result demo (channel_id ch_dev) 10 = Inr [msg_new]"
    by (simp_all add: demo_def ch_general_def ch_news_def ch_dev_def)
  have e: "concat (map (channel_entries demo 10) [ch_general, ch_news, ch_dev]) =
      [format_message ch_general msg_old, error_entry ch_news ''Missing Access'',
       format_message ch_dev msg_new]"
    by (simp add: channel_entries_def f)
  from read_multiple_channels_listed[OF p ne demo_findGuild_1, THEN conjunct2, rule_format, OF m]
  obtain es where es:
    "fst (callTool ''read-multiple-channels'' ?A demo) =
       Inr (TextJson (''Fetched messages from '' @ show_nat (length [ch_general, ch_news, ch_dev])
              @ '' channel(s) in '' @ quoted (guild_name guildA) @ '':'' @ nl) (Entries es))"
    "mset es = mset (concat (map (channel_entries demo 10) [ch_general, ch_news, ch_dev]))"
    by blast
  have "length es = 3" using es(2) e by (metis length_Cons list.size(3) numeral_3_eq_3 size_mset)
  moreover have "set es = {format_message ch_general msg_old, error_entry ch_news ''Missing Access'',
       format_message ch_dev msg_new}"
    using es(2) e by (metis list.simps(15) empty_set set_mset_mset)
  moreover have "show_nat (length [ch_general, ch_news, ch_dev]) = ''3''"
    by (simp add: digit_char_def)
  ultimately show ?thesis using es(1) aborted by (auto simp: guildA_def)
qed

lemma set_sort_insert: "set (sort_insert cmp x rs) = insert x (set rs)"
  using mset_sort_insert[of cmp x rs] by (metis set_mset_add_mset_insert set_mset_mset)

lemma compare_entries_pos:
  "timestamp y = Some ty \<Longrightarrow> timestamp x = Some tx \<Longrightarrow> compare_entries y x > 0 \<longleftrightarrow> ty < tx"
  by (simp add: compare_entries_def)

text \<open>
  When every item carries a timestamp the comparator is consistent, and the result is the
  one every stable sort gives: newest first.
\<close>

lemma js_sort_newest_first:
  assumes "\<forall>e\<in>set es. timestamp e \<noteq> None"
  shows "sorted_wrt (\<lambda>a b. \<exists>ta tb. timestamp a = Some ta \<and> timestamp b = Some tb \<and> tb \<le> ta)
           (js_sort compare_entries es)"
proof -
  define older where "older a b \<longleftrightarrow> (\<exists>ta tb. timestamp a = Some ta \<and> timestamp b = Some tb \<and> ta \<le> tb)"
    for a b :: entry
  have ins: "sorted_wrt older (sort_insert compare_entries x rs)"
    if "sorted_wrt older rs" "timestamp x \<noteq> None" "\<forall>e\<in>set rs. timestamp e \<noteq> None" for x rs
    using that
  proof (induction rs)
    case Nil
    then show ?case by simp
  next
    case (Cons y rs)
    obtain tx ty where t: "timestamp x = Some tx" "timestamp y = Some ty"
      using Cons.prems by auto
    show ?case
    proof (cases "compare_entries y x > 0")
      case True
      then have "ty < tx" using compare_entries_pos[OF t(2) t(1)] by simp
      then have "older y x" by (auto simp: older_def t)
      then show ?thesis
        using True Cons by (auto simp: set_sort_insert)
    next
      case False
      then have le: "tx \<le> ty" using compare_entries_pos[OF t(2) t(1)] by simp
      then have xy: "older x y" by (auto simp: older_def t)
      have "older x z" if "z \<in> set rs" for z
      proof -
        have "older y z" using Cons.prems(1) that by simp
        then show ?thesis using le by (auto simp: older_def t)
      qed
      then show ?thesis using False Cons.prems(1) xy by auto
    qed
  qed
  have fold: "sorted_wrt older (foldl (\<lambda>rs x. sort_insert compare_entries x rs) acc xs)
      \<and> (\<forall>e\<in>set (foldl (\<lambda>rs x. sort_insert compare_entries x rs) acc xs). timestamp e \<noteq> None)"
    if "sorted_wrt older acc" "\<forall>e\<in>set acc. timestamp e \<noteq> None" "\<forall>e\<in>set xs. timestamp e \<noteq> None"
    for acc xs
    using that
  proof (induction xs arbitrary: acc)
    case Nil
    then show ?case by simp
  next
    case (Cons x xs)
    have "sorted_wrt older (sort_insert compare_entries x acc)"
      using ins[of acc x] Cons.prems by simp
    moreover have "\<forall>e\<in>set (sort_insert compare_entries x acc). timestamp e \<noteq> None"
      using Cons.prems by (simp add: set_sort_insert)
    ultimately show ?case using Cons.IH[of "sort_insert compare_entries x acc"] Cons.prems(3)
      by simp
  qed
  have "sorted_wrt older (foldl (\<lambda>rs x. sort_insert compare_entries x rs) [] es)"
    using fold[of "[]" es] assms by simp
  then have "sorted_wrt (\<lambda>a b. older b a) (js_sort compare_entries es)"
    by (simp add: js_sort_def sorted_wrt_rev)
  moreover have "(\<lambda>a b. older b a) =
      (\<lambda>a b. \<exists>ta tb. timestamp a = Some ta \<and> timestamp b = Some tb \<and> tb \<le> ta)"
    by (intro ext) (auto simp: older_def)
  ultimately show ?thesis by simp
qed

text \<open>
  C2 at an input with a failed channel between two channels that could be read: the error
  entry compares equal to both messages, so the sort moves nothing: the older message stays
  before the newer one, and the error entry stays between them.
\<close>

theorem read_multiple_channels_error_entry_blocks_sort:
  "fst (callTool ''read-multiple-channels''
          (Some (JObj [(''server'', JStr ''1''),
                       (''channels'', JArr [JStr ''10'', JStr ''11'', JStr ''13''])]))
          demo) =
     Inr (TextJson (''Fetched messages from 3 channel(s) in '' @ quoted ''Alpha'' @ '':'' @ nl)
            (Entries
              [MessageEntry ''#general'' ''Alpha'' ''alice#0001'' ''first'' 1000,
               ErrorEntry ''#news'' ''Alpha'' ''Failed to fetch messages: Missing Access'',
               MessageEntry ''#dev'' ''Alpha'' ''bob#0002'' ''second'' 2000]))"
proof -
  have p: "ReadMultipleChannelsSchema
      (Some (JObj [(''server'', JStr ''1''),
                   (''channels'', JArr [JStr ''10'', JStr ''11'', JStr ''13''])])) =
      Inr (Some ''1'', Some [''10'', ''11'', ''13''], 10)"
    by (simp add: ReadMultipleChannelsSchema_def schema_defs)
  show ?thesis
    by (simp add: handler_defs p action_defs resolver_defs digit_char_def
        demo_def demo_entities)
qed

end
